theory Spec2Isabelle
  imports
    Complex_Main
    "HOL-Library.AList"
    "HOL-Library.Char_ord"
    "HOL-Library.List_Lexorder"
    "HOL-Library.Multiset"
    "HOL-Library.Product_Lexorder"
begin

section \<open>Data model\<close>

text \<open>
  The repository works on pandas tables. A \<open>DataFrame\<close> is modelled by its row labels
  (\<open>index\<close>), its column labels (\<open>columns\<close>) and its cells, row by row. Labels are
  strings and may repeat, as pandas allows. The cell type is a parameter: expression
  matrices hold floats, metadata tables hold arbitrary objects.
\<close>

type_synonym label = string

record 'a dataframe =
  index :: "label list"
  columns :: "label list"
  cells :: "'a list list"

text \<open>A pandas frame is rectangular: one row of cells per row label, one cell per column.\<close>

definition wf_df :: "'a dataframe \<Rightarrow> bool" where
  "wf_df df \<longleftrightarrow>
     length (cells df) = length (index df) \<and>
     list_all (\<lambda>r. length r = length (columns df)) (cells df)"

text \<open>\<^verbatim>\<open>pd.DataFrame()\<close> and \<^verbatim>\<open>df.empty\<close> (true when either axis has length 0).\<close>

definition empty_df :: "'a dataframe" where
  "empty_df = \<lparr>index = [], columns = [], cells = []\<rparr>"

definition df_empty :: "'a dataframe \<Rightarrow> bool" where
  "df_empty df \<longleftrightarrow> index df = [] \<or> columns df = []"

text \<open>
  A float is a finite value, an infinity or NaN. Comparison of floats is exact, so the
  finite values are read as reals; \<open>x > y\<close> is false as soon as one side is NaN.
\<close>

datatype fval = Fin real | PInf | NInf | NaN

fun fgt :: "fval \<Rightarrow> fval \<Rightarrow> bool" where
  "fgt NaN _ = False"
| "fgt _ NaN = False"
| "fgt PInf PInf = False"
| "fgt PInf _ = True"
| "fgt NInf _ = False"
| "fgt (Fin a) PInf = False"
| "fgt (Fin a) NInf = True"
| "fgt (Fin a) (Fin b) = (b < a)"

text \<open>The exceptions the modelled code can raise.\<close>

datatype pyerr = ValueError | KeyError

text \<open>A \<open>Series\<close> is a list of labelled values.\<close>

type_synonym 'v series = "(label \<times> 'v) list"

subsection \<open>pandas indexing\<close>

text \<open>
  Selection by a boolean mask is positional: \<^verbatim>\<open>df.loc[:, mask]\<close> keeps the columns
  whose mask entry is true, \<^verbatim>\<open>df.loc[mask, :]\<close> the rows.
\<close>

definition mask_select :: "'a list \<Rightarrow> bool list \<Rightarrow> 'a list" where
  "mask_select xs m = map fst (filter snd (zip xs m))"

definition loc_columns_mask :: "'a dataframe \<Rightarrow> bool list \<Rightarrow> 'a dataframe" where
  "loc_columns_mask df m =
     \<lparr>index = index df, columns = mask_select (columns df) m,
      cells = map (\<lambda>r. mask_select r m) (cells df)\<rparr>"

definition loc_rows_mask :: "'a dataframe \<Rightarrow> bool list \<Rightarrow> 'a dataframe" where
  "loc_rows_mask df m =
     \<lparr>index = mask_select (index df) m, columns = columns df,
      cells = mask_select (cells df) m\<rparr>"

definition column_at :: "'a dataframe \<Rightarrow> nat \<Rightarrow> 'a list" where
  "column_at df j = map (\<lambda>r. r ! j) (cells df)"

text \<open>
  Selection by a list of labels (\<^verbatim>\<open>s[labels]\<close>, \<^verbatim>\<open>df.loc[labels]\<close>) is by label: for
  each requested label, in the order requested, every entry that carries it. A label
  that is absent raises \<open>KeyError\<close>.
\<close>

definition positions_of :: "label list \<Rightarrow> label \<Rightarrow> nat list" where
  "positions_of labels k = filter (\<lambda>i. labels ! i = k) [0..<length labels]"

definition loc_positions :: "label list \<Rightarrow> label list \<Rightarrow> pyerr + nat list" where
  "loc_positions labels keys =
     (if list_ex (\<lambda>k. k \<notin> set labels) keys then Inl KeyError
      else Inr (concat (map (positions_of labels) keys)))"

definition series_loc :: "'v series \<Rightarrow> label list \<Rightarrow> pyerr + 'v series" where
  "series_loc s keys =
     (case loc_positions (map fst s) keys of
        Inl e \<Rightarrow> Inl e
      | Inr ps \<Rightarrow> Inr (map ((!) s) ps))"

definition loc_rows :: "'a dataframe \<Rightarrow> label list \<Rightarrow> pyerr + 'a dataframe" where
  "loc_rows df keys =
     (case loc_positions (index df) keys of
        Inl e \<Rightarrow> Inl e
      | Inr ps \<Rightarrow>
          Inr \<lparr>index = map ((!) (index df)) ps, columns = columns df,
               cells = map ((!) (cells df)) ps\<rparr>)"

text \<open>\<^verbatim>\<open>df[labels]\<close> selects columns by label in the same way.\<close>

definition getitem_columns :: "'a dataframe \<Rightarrow> label list \<Rightarrow> pyerr + 'a dataframe" where
  "getitem_columns df keys =
     (case loc_positions (columns df) keys of
        Inl e \<Rightarrow> Inl e
      | Inr ps \<Rightarrow>
          Inr \<lparr>index = index df, columns = map ((!) (columns df)) ps,
               cells = map (\<lambda>r. map ((!) r) ps) (cells df)\<rparr>)"

text \<open>
  \<^verbatim>\<open>a.intersection(b)\<close> on two indexes: the distinct labels of \<open>a\<close> that occur in
  \<open>b\<close>, in the order of their first occurrence in \<open>a\<close>.
\<close>

definition unique :: "'a list \<Rightarrow> 'a list" where
  "unique xs = rev (remdups (rev xs))"

definition index_intersection :: "label list \<Rightarrow> label list \<Rightarrow> label list" where
  "index_intersection a b = filter (\<lambda>x. x \<in> set b) (unique a)"

text \<open>
  \<^verbatim>\<open>frame[col] = series\<close>: the values are taken as they are when the series carries the
  frame's index; otherwise the series is reindexed to it, which raises \<open>ValueError\<close>
  when the series has a repeated label and leaves a missing value (\<open>None\<close>) for a
  label the series does not have.
\<close>

definition reindex_for_setitem :: "label list \<Rightarrow> 'v series \<Rightarrow> pyerr + 'v option list" where
  "reindex_for_setitem frame_index s =
     (if map fst s = frame_index \<or> frame_index = [] then Inr (map (\<lambda>p. Some (snd p)) s)
      else if \<not> distinct (map fst s) then Inl ValueError
      else Inr (map (map_of s) frame_index))"

section \<open>shared\_utils/sc\_processor.py\<close>

subsection \<open>filter\_tpm\_matrix\<close>

text \<open>
  \<^verbatim>\<open>(df > min_tpm).sum(axis=0)\<close> and \<^verbatim>\<open>(df > min_tpm).sum(axis=1)\<close>: the number of
  cells above the threshold per column and per row, as series over the column and
  row labels.
\<close>

definition count_gt :: "fval \<Rightarrow> fval list \<Rightarrow> nat" where
  "count_gt t xs = length (filter (\<lambda>x. fgt x t) xs)"

definition detected_per_sample :: "fval \<Rightarrow> fval dataframe \<Rightarrow> nat series" where
  "detected_per_sample t df =
     map (\<lambda>j. (columns df ! j, count_gt t (column_at df j))) [0..<length (columns df)]"

definition detected_per_gene :: "fval \<Rightarrow> fval dataframe \<Rightarrow> nat series" where
  "detected_per_gene t df = zip (index df) (map (count_gt t) (cells df))"

text \<open>
  The QC table has one row per kept sample and the columns \<open>n_genes_detected\<close> (a
  count) and \<open>total_tpm\<close> (a float sum, computed by pandas: the parameter \<open>fsum\<close>).
\<close>

datatype qcell = Count nat | Total fval | Missing

definition qc_columns :: "label list" where
  "qc_columns = [''n_genes_detected'', ''total_tpm'']"

definition qc_row :: "nat option \<Rightarrow> fval option \<Rightarrow> qcell list" where
  "qc_row n s =
     [case n of None \<Rightarrow> Missing | Some c \<Rightarrow> Count c,
      case s of None \<Rightarrow> Missing | Some v \<Rightarrow> Total v]"

definition sum_axis0 :: "(fval list \<Rightarrow> fval) \<Rightarrow> fval dataframe \<Rightarrow> fval series" where
  "sum_axis0 fsum df =
     map (\<lambda>j. (columns df ! j, fsum (column_at df j))) [0..<length (columns df)]"

definition filter_tpm_matrix ::
  "(fval list \<Rightarrow> fval) \<Rightarrow> fval dataframe \<Rightarrow> fval \<Rightarrow> int \<Rightarrow> int
     \<Rightarrow> pyerr + (fval dataframe \<times> qcell dataframe)" where
  "filter_tpm_matrix fsum df min_tpm min_genes_per_sample min_samples_per_gene =
     (if df_empty df then Inr (empty_df, empty_df)
      else
        let genes_detected = detected_per_sample min_tpm df;
            samples_mask = map (\<lambda>p. min_genes_per_sample \<le> int (snd p)) genes_detected;
            df_filtered_samples = loc_columns_mask df samples_mask
        in
          if df_empty df_filtered_samples then Inr (empty_df, empty_df)
          else
            let samples_per_gene = detected_per_gene min_tpm df_filtered_samples;
                genes_mask = map (\<lambda>p. min_samples_per_gene \<le> int (snd p)) samples_per_gene;
                df_final = loc_rows_mask df_filtered_samples genes_mask
            in
              case series_loc genes_detected (columns df_final) of
                Inl e \<Rightarrow> Inl e
              | Inr selected \<Rightarrow>
                  (case reindex_for_setitem (columns df_final) selected of
                     Inl e \<Rightarrow> Inl e
                   | Inr n_genes_detected \<Rightarrow>
                       (case reindex_for_setitem (columns df_final) (sum_axis0 fsum df_final) of
                          Inl e \<Rightarrow> Inl e
                        | Inr total_tpm \<Rightarrow>
                            Inr (df_final,
                                 \<lparr>index = columns df_final, columns = qc_columns,
                                  cells = map2 qc_row n_genes_detected total_tpm\<rparr>))))"

text \<open>
  The same function over an explicit store, to say what it writes. The store holds the
  expression tables and the QC tables that exist; a table is referred to by its
  position. Every pandas operation that builds a table (\<^verbatim>\<open>pd.DataFrame(...)\<close>,
  \<^verbatim>\<open>df.loc[...]\<close>) adds a new table to the store; the two column assignments
  \<^verbatim>\<open>qc_metrics[...] = ...\<close> write into the QC table created just before. The
  function returns the positions of the two tables it returns, or the exception, and
  the store it leaves.
\<close>

record store =
  frames :: "fval dataframe list"
  qc_tables :: "qcell dataframe list"

definition new_frame :: "store \<Rightarrow> fval dataframe \<Rightarrow> nat \<times> store" where
  "new_frame st f = (length (frames st), st\<lparr>frames := frames st @ [f]\<rparr>)"

definition new_qc :: "store \<Rightarrow> qcell dataframe \<Rightarrow> nat \<times> store" where
  "new_qc st q = (length (qc_tables st), st\<lparr>qc_tables := qc_tables st @ [q]\<rparr>)"

definition add_column :: "'a dataframe \<Rightarrow> label \<Rightarrow> 'a list \<Rightarrow> 'a dataframe" where
  "add_column q name col =
     \<lparr>index = index q, columns = columns q @ [name],
      cells = map2 (\<lambda>row v. row @ [v]) (cells q) col\<rparr>"

definition set_qc_column :: "store \<Rightarrow> nat \<Rightarrow> label \<Rightarrow> qcell list \<Rightarrow> store" where
  "set_qc_column st r name col =
     st\<lparr>qc_tables := (qc_tables st)[r := add_column (qc_tables st ! r) name col]\<rparr>"

definition count_cell :: "nat option \<Rightarrow> qcell" where
  "count_cell n = (case n of None \<Rightarrow> Missing | Some c \<Rightarrow> Count c)"

definition total_cell :: "fval option \<Rightarrow> qcell" where
  "total_cell s = (case s of None \<Rightarrow> Missing | Some v \<Rightarrow> Total v)"

definition return_empty :: "store \<Rightarrow> (pyerr + nat \<times> nat) \<times> store" where
  "return_empty st =
     (let (a, st1) = new_frame st empty_df;
          (b, st2) = new_qc st1 empty_df
      in (Inr (a, b), st2))"

definition filter_tpm_matrix_store ::
  "(fval list \<Rightarrow> fval) \<Rightarrow> store \<Rightarrow> nat \<Rightarrow> fval \<Rightarrow> int \<Rightarrow> int
     \<Rightarrow> (pyerr + nat \<times> nat) \<times> store" where
  "filter_tpm_matrix_store fsum st d min_tpm min_genes_per_sample min_samples_per_gene =
     (let df = frames st ! d
      in if df_empty df then return_empty st
         else
           let genes_detected = detected_per_sample min_tpm df;
               samples_mask = map (\<lambda>p. min_genes_per_sample \<le> int (snd p)) genes_detected;
               (fs, st1) = new_frame st (loc_columns_mask df samples_mask);
               df_filtered_samples = frames st1 ! fs
           in
             if df_empty df_filtered_samples then return_empty st1
             else
               let samples_per_gene = detected_per_gene min_tpm df_filtered_samples;
                   genes_mask = map (\<lambda>p. min_samples_per_gene \<le> int (snd p)) samples_per_gene;
                   (fin, st2) = new_frame st1 (loc_rows_mask df_filtered_samples genes_mask);
                   df_final = frames st2 ! fin;
                   (qc, st3) = new_qc st2 \<lparr>index = columns df_final, columns = [],
                                            cells = map (\<lambda>c. []) (columns df_final)\<rparr>
               in
                 case series_loc genes_detected (columns df_final) of
                   Inl e \<Rightarrow> (Inl e, st3)
                 | Inr selected \<Rightarrow>
                     (case reindex_for_setitem (index (qc_tables st3 ! qc)) selected of
                        Inl e \<Rightarrow> (Inl e, st3)
                      | Inr n_genes_detected \<Rightarrow>
                          (let st4 = set_qc_column st3 qc ''n_genes_detected''
                                       (map count_cell n_genes_detected)
                           in case reindex_for_setitem (index (qc_tables st4 ! qc))
                                     (sum_axis0 fsum (frames st4 ! fin)) of
                                Inl e \<Rightarrow> (Inl e, st4)
                              | Inr total_tpm \<Rightarrow>
                                  (Inr (fin, qc),
                                   set_qc_column st4 qc ''total_tpm'' (map total_cell total_tpm)))))"

text \<open>
  The two-stage rule in the words of the specification: the kept samples are the
  columns in which at least \<open>min_genes_per_sample\<close> genes exceed \<open>min_tpm\<close>; the kept
  genes are the rows that exceed \<open>min_tpm\<close> in at least \<open>min_samples_per_gene\<close> of the
  kept samples.
\<close>

definition kept_samples :: "fval dataframe \<Rightarrow> fval \<Rightarrow> int \<Rightarrow> nat list" where
  "kept_samples df min_tpm min_genes_per_sample =
     filter (\<lambda>j. min_genes_per_sample
                  \<le> int (length (filter (\<lambda>i. fgt (cells df ! i ! j) min_tpm) [0..<length (index df)])))
       [0..<length (columns df)]"

definition kept_genes :: "fval dataframe \<Rightarrow> fval \<Rightarrow> nat list \<Rightarrow> int \<Rightarrow> nat list" where
  "kept_genes df min_tpm samples min_samples_per_gene =
     filter (\<lambda>i. min_samples_per_gene
                  \<le> int (length (filter (\<lambda>j. fgt (cells df ! i ! j) min_tpm) samples)))
       [0..<length (index df)]"

definition submatrix :: "'a dataframe \<Rightarrow> nat list \<Rightarrow> nat list \<Rightarrow> 'a dataframe" where
  "submatrix df rs cs =
     \<lparr>index = map ((!) (index df)) rs, columns = map ((!) (columns df)) cs,
      cells = map (\<lambda>i. map (\<lambda>j. cells df ! i ! j) cs) rs\<rparr>"

definition two_stage_spec :: "fval dataframe \<Rightarrow> fval \<Rightarrow> int \<Rightarrow> int \<Rightarrow> fval dataframe" where
  "two_stage_spec df min_tpm min_genes_per_sample min_samples_per_gene =
     (let samples = kept_samples df min_tpm min_genes_per_sample
      in submatrix df (kept_genes df min_tpm samples min_samples_per_gene) samples)"

subsection \<open>log\_transform\<close>

text \<open>
  \<^verbatim>\<open>np.log2(df + 1)\<close> and \<^verbatim>\<open>np.log1p(df)\<close> act cell by cell and keep the labels.
  The three float routines (\<open>x + 1\<close>, \<open>log2\<close>, \<open>log1p\<close>) are parameters. An empty
  frame is returned as it is.
\<close>

definition map_cells :: "('a \<Rightarrow> 'b) \<Rightarrow> 'a dataframe \<Rightarrow> 'b dataframe" where
  "map_cells f df = \<lparr>index = index df, columns = columns df, cells = map (map f) (cells df)\<rparr>"

definition log_transform ::
  "('a \<Rightarrow> 'a) \<Rightarrow> ('a \<Rightarrow> 'a) \<Rightarrow> ('a \<Rightarrow> 'a) \<Rightarrow> 'a dataframe \<Rightarrow> string \<Rightarrow> 'a dataframe" where
  "log_transform add_one np_log2 np_log1p df method =
     (if df_empty df then df
      else if method = ''log2'' then map_cells np_log2 (map_cells add_one df)
      else map_cells np_log1p df)"

text \<open>The call without a method argument uses the default \<^verbatim>\<open>method='log1p'\<close>.\<close>

definition log_transform_default ::
  "('a \<Rightarrow> 'a) \<Rightarrow> ('a \<Rightarrow> 'a) \<Rightarrow> ('a \<Rightarrow> 'a) \<Rightarrow> 'a dataframe \<Rightarrow> 'a dataframe" where
  "log_transform_default add_one np_log2 np_log1p df =
     log_transform add_one np_log2 np_log1p df ''log1p''"

subsection \<open>select\_highly\_variable\_genes\<close>

text \<open>
  \<^verbatim>\<open>Series.fillna(0)\<close> on one value, and the constant \<^verbatim>\<open>epsilon = 1e-9\<close>.
\<close>

definition fillna0 :: "fval \<Rightarrow> fval" where
  "fillna0 x = (if x = NaN then Fin 0 else x)"

definition epsilon :: fval where
  "epsilon = Fin (1 / 10 ^ 9)"

text \<open>
  \<^verbatim>\<open>Series.nlargest(n)\<close>, as pandas documents it: no entry for \<open>n \<le> 0\<close>; otherwise
  the first \<open>n\<close> entries in descending order of value, entries of equal value in
  their original order, NaN entries last. The key \<open>desc_key\<close> orders the floats
  downwards. (When \<open>n\<close> is at least the length, pandas sorts with an unstable sort;
  the order among equal values is then unspecified, and no statement below depends on
  it.)
\<close>

fun desc_key :: "fval \<Rightarrow> int \<times> real" where
  "desc_key PInf = (0, 0)"
| "desc_key (Fin x) = (1, - x)"
| "desc_key NInf = (2, 0)"
| "desc_key NaN = (3, 0)"

definition nlargest :: "int \<Rightarrow> fval series \<Rightarrow> fval series" where
  "nlargest n s =
     (if n \<le> 0 then []
      else take (nat n)
             (sort_key (\<lambda>p. desc_key (snd p)) (filter (\<lambda>p. snd p \<noteq> NaN) s)
              @ filter (\<lambda>p. snd p = NaN) s))"

text \<open>
  The metrics table has the genes as index and the columns \<open>mean\<close>, \<open>variance\<close>,
  \<open>dispersion\<close> (floats) and \<open>is_hvg\<close> (booleans); it is kept column by column.
\<close>

record hvg_metrics =
  metrics_index :: "label list"
  metrics_mean :: "fval list"
  metrics_variance :: "fval list"
  metrics_dispersion :: "fval list"
  metrics_is_hvg :: "bool list"

definition empty_metrics :: hvg_metrics where
  "empty_metrics =
     \<lparr>metrics_index = [], metrics_mean = [], metrics_variance = [],
      metrics_dispersion = [], metrics_is_hvg = []\<rparr>"

text \<open>
  The float routines are parameters: \<open>row_mean\<close> and \<open>row_var\<close> are the pandas
  reductions \<^verbatim>\<open>mean(axis=1)\<close> and \<^verbatim>\<open>var(axis=1)\<close> on one row, \<open>f_add\<close> and \<open>f_div\<close>
  float addition and division.
\<close>

definition gene_dispersion ::
  "(fval list \<Rightarrow> fval) \<Rightarrow> (fval list \<Rightarrow> fval) \<Rightarrow> (fval \<Rightarrow> fval \<Rightarrow> fval)
     \<Rightarrow> (fval \<Rightarrow> fval \<Rightarrow> fval) \<Rightarrow> fval list \<Rightarrow> fval" where
  "gene_dispersion row_mean row_var f_add f_div row =
     fillna0 (f_div (row_var row) (f_add (row_mean row) epsilon))"

definition select_highly_variable_genes ::
  "(fval list \<Rightarrow> fval) \<Rightarrow> (fval list \<Rightarrow> fval) \<Rightarrow> (fval \<Rightarrow> fval \<Rightarrow> fval)
     \<Rightarrow> (fval \<Rightarrow> fval \<Rightarrow> fval) \<Rightarrow> fval dataframe \<Rightarrow> int
     \<Rightarrow> pyerr + (fval dataframe \<times> hvg_metrics)" where
  "select_highly_variable_genes row_mean row_var f_add f_div df n_top_genes =
     (if df_empty df then Inr (empty_df, empty_metrics)
      else
        let mean_expr = map row_mean (cells df);
            var_expr = map row_var (cells df);
            dispersion = map (gene_dispersion row_mean row_var f_add f_div) (cells df);
            n_top = min n_top_genes (int (length dispersion));
            hvg_indices = map fst (nlargest n_top (zip (index df) dispersion))
        in
          case loc_rows df hvg_indices of
            Inl e \<Rightarrow> Inl e
          | Inr df_hvg \<Rightarrow>
              Inr (df_hvg,
                   \<lparr>metrics_index = index df, metrics_mean = mean_expr,
                    metrics_variance = var_expr, metrics_dispersion = dispersion,
                    metrics_is_hvg = map (\<lambda>g. g \<in> set hvg_indices) (index df)\<rparr>))"

subsection \<open>Transposition and frame construction\<close>

text \<open>
  \<^verbatim>\<open>df.T\<close> swaps the axes of a frame; \<^verbatim>\<open>a.T\<close> transposes a two-dimensional array
  (given by its rows, all of one length). \<^verbatim>\<open>pd.DataFrame(data, index=, columns=)\<close>
  raises \<open>ValueError\<close> when the shape of the data does not fit the labels.
\<close>

definition df_T :: "'a dataframe \<Rightarrow> 'a dataframe" where
  "df_T df =
     \<lparr>index = columns df, columns = index df,
      cells = map (column_at df) [0..<length (columns df)]\<rparr>"

definition np_T :: "'a list list \<Rightarrow> 'a list list" where
  "np_T a = (case a of [] \<Rightarrow> [] | r # _ \<Rightarrow> map (\<lambda>j. map (\<lambda>row. row ! j) a) [0..<length r])"

text \<open>A non-empty array all of whose rows have the same positive length \<open>c\<close>.\<close>

definition rect :: "nat \<Rightarrow> 'a list list \<Rightarrow> bool" where
  "rect c a \<longleftrightarrow> a \<noteq> [] \<and> 0 < c \<and> (\<forall>r \<in> set a. length r = c)"

definition make_frame :: "'a list list \<Rightarrow> label list \<Rightarrow> label list \<Rightarrow> pyerr + 'a dataframe" where
  "make_frame data ix cols =
     (if length data = length ix \<and> list_all (\<lambda>r. length r = length cols) data
      then Inr \<lparr>index = ix, columns = cols, cells = data\<rparr>
      else Inl ValueError)"

subsection \<open>scale\_data\<close>

text \<open>
  \<^verbatim>\<open>StandardScaler().fit_transform\<close> is a parameter: it takes the transposed frame
  \<^verbatim>\<open>df.T\<close> (samples by genes, with its labels, which scikit-learn reads as feature
  names) and returns the scaled array or raises.
\<close>

definition scale_data ::
  "('a dataframe \<Rightarrow> pyerr + 'a list list) \<Rightarrow> 'a dataframe \<Rightarrow> pyerr + 'a dataframe" where
  "scale_data fit_transform df =
     (if df_empty df then Inr empty_df
      else
        case fit_transform (df_T df) of
          Inl e \<Rightarrow> Inl e
        | Inr scaled \<Rightarrow> make_frame (np_T scaled) (index df) (columns df))"

text \<open>
  Mean, population variance and standardisation of a list of reals: each value is
  centred on the mean and divided by the population standard deviation; a list of zero
  variance is only centred.
\<close>

definition mean :: "real list \<Rightarrow> real" where
  "mean xs = sum_list xs / real (length xs)"

definition pvariance :: "real list \<Rightarrow> real" where
  "pvariance xs = sum_list (map (\<lambda>x. (x - mean xs)\<^sup>2) xs) / real (length xs)"

definition standardize :: "real list \<Rightarrow> real list" where
  "standardize xs =
     (let s = sqrt (pvariance xs); scale = (if s = 0 then 1 else s)
      in map (\<lambda>x. (x - mean xs) / scale) xs)"

subsection \<open>run\_pca\_pipeline\<close>

text \<open>Python's decimal rendering of a non-negative integer, for \<^verbatim>\<open>f'PC{i+1}'\<close>.\<close>

definition digit_char :: "nat \<Rightarrow> char" where
  "digit_char d = char_of (48 + d)"

function str_of_nat :: "nat \<Rightarrow> string" where
  "str_of_nat n = (if n < 10 then [digit_char n] else str_of_nat (n div 10) @ [digit_char (n mod 10)])"
  by pat_completeness auto
termination
  by (relation "measure id") auto

declare str_of_nat.simps [simp del]

definition pc_cols :: "int \<Rightarrow> label list" where
  "pc_cols actual_n = map (\<lambda>i. ''PC'' @ str_of_nat (i + 1)) [0..<nat actual_n]"

text \<open>
  \<^verbatim>\<open>PCA(n_components, random_state=42)\<close> with \<^verbatim>\<open>fit_transform\<close> is a parameter: from
  the number of components and the samples-by-features array it returns the
  coordinates, the explained variance ratios and the fitted object, or raises. The
  function returns the coordinate frame, the ratios and the fitted object (\<open>None\<close>
  for empty input).
\<close>

definition run_pca_pipeline ::
  "(int \<Rightarrow> 'a list list \<Rightarrow> pyerr + ('a list list \<times> 'a list \<times> 'p)) \<Rightarrow> 'a dataframe \<Rightarrow> int
     \<Rightarrow> pyerr + ('a dataframe \<times> 'a list \<times> 'p option)" where
  "run_pca_pipeline pca df_scaled n_components =
     (if df_empty df_scaled then Inr (empty_df, [], None)
      else
        let X = df_T df_scaled;
            n_samples = int (length (index X));
            n_features = int (length (columns X));
            actual_n = min n_components (min n_samples n_features)
        in
          case pca actual_n (cells X) of
            Inl e \<Rightarrow> Inl e
          | Inr (X_pca, explained_variance_ratio, fitted) \<Rightarrow>
              (case make_frame X_pca (index X) (pc_cols actual_n) of
                 Inl e \<Rightarrow> Inl e
               | Inr df_pca \<Rightarrow> Inr (df_pca, explained_variance_ratio, Some fitted)))"

section \<open>Datasets/GSE41265/sc\_loader.py\<close>

text \<open>
  A raw expression table holds integers, floats or strings. A cleaned table holds
  numbers, each an integer (a cell of an \<open>int64\<close> column) or a float (a cell of a
  \<open>float64\<close> column).
\<close>

datatype raw = RInt int | RFloat fval | RStr string

datatype numval = IntV int | FloatV fval

fun is_int :: "numval \<Rightarrow> bool" where
  "is_int (IntV i) = True"
| "is_int (FloatV v) = False"

fun to_float :: "numval \<Rightarrow> fval" where
  "to_float (IntV i) = Fin (real_of_int i)"
| "to_float (FloatV v) = v"

fun int_of_num :: "numval \<Rightarrow> int" where
  "int_of_num (IntV i) = i"
| "int_of_num (FloatV v) = 0"

fun is_missing :: "numval \<Rightarrow> bool" where
  "is_missing (FloatV NaN) = True"
| "is_missing _ = False"

text \<open>\<^verbatim>\<open>df.drop(label, axis=0)\<close> removes every row that carries the label.\<close>

definition drop_label :: "'a dataframe \<Rightarrow> label \<Rightarrow> 'a dataframe" where
  "drop_label df k = loc_rows_mask df (map (\<lambda>l. l \<noteq> k) (index df))"

text \<open>
  \<^verbatim>\<open>df.astype(float)\<close>: every cell becomes a float; a string is parsed by Python's
  \<open>float\<close> (the parameter \<open>py_float\<close>, \<open>None\<close> when it raises), and one string that
  does not parse makes the whole conversion raise \<open>ValueError\<close>.
\<close>

fun float_of_raw :: "(string \<Rightarrow> fval option) \<Rightarrow> raw \<Rightarrow> fval option" where
  "float_of_raw py_float (RInt i) = Some (Fin (real_of_int i))"
| "float_of_raw py_float (RFloat v) = Some v"
| "float_of_raw py_float (RStr s) = py_float s"

definition astype_float :: "(string \<Rightarrow> fval option) \<Rightarrow> raw dataframe \<Rightarrow> pyerr + numval dataframe" where
  "astype_float py_float df =
     (if list_all (list_all (\<lambda>c. float_of_raw py_float c \<noteq> None)) (cells df)
      then Inr (map_cells (\<lambda>c. case float_of_raw py_float c of
                                   Some v \<Rightarrow> FloatV v | None \<Rightarrow> FloatV NaN) df)
      else Inl ValueError)"

text \<open>
  \<^verbatim>\<open>df.apply(pd.to_numeric, errors='coerce')\<close> works column by column: a string is
  parsed by pandas (the parameter \<open>pd_numeric\<close>: an integer, a float, or \<open>None\<close>
  when it is not a number, which coercion turns into NaN). A column all of whose values
  are integers comes out as an integer column; any other column comes out as a float
  column.
\<close>

fun numeric_of_raw :: "(string \<Rightarrow> numval option) \<Rightarrow> raw \<Rightarrow> numval" where
  "numeric_of_raw pd_numeric (RInt i) = IntV i"
| "numeric_of_raw pd_numeric (RFloat v) = FloatV v"
| "numeric_of_raw pd_numeric (RStr s) = (case pd_numeric s of Some n \<Rightarrow> n | None \<Rightarrow> FloatV NaN)"

definition to_numeric_column :: "(string \<Rightarrow> numval option) \<Rightarrow> raw list \<Rightarrow> numval list" where
  "to_numeric_column pd_numeric col =
     (let parsed = map (numeric_of_raw pd_numeric) col
      in if list_all is_int parsed then parsed else map (\<lambda>n. FloatV (to_float n)) parsed)"

definition from_columns :: "label list \<Rightarrow> label list \<Rightarrow> 'a list list \<Rightarrow> 'a dataframe" where
  "from_columns ix cols column_values =
     \<lparr>index = ix, columns = cols,
      cells = map (\<lambda>i. map (\<lambda>c. c ! i) column_values) [0..<length ix]\<rparr>"

definition apply_to_numeric :: "(string \<Rightarrow> numval option) \<Rightarrow> raw dataframe \<Rightarrow> numval dataframe" where
  "apply_to_numeric pd_numeric df =
     from_columns (index df) (columns df)
       (map (\<lambda>j. to_numeric_column pd_numeric (column_at df j)) [0..<length (columns df)])"

text \<open>
  \<^verbatim>\<open>df.groupby(df.index).sum()\<close>: one row per distinct label, the labels sorted; in
  each column the sum of the rows that carry the label. An integer column is summed
  in 64-bit two's complement, so the sum wraps around; a float column is summed by the
  pandas float sum (the parameter \<open>fsum\<close>).
\<close>

definition wrap_int64 :: "int \<Rightarrow> int" where
  "wrap_int64 x = (x + 2 ^ 63) mod 2 ^ 64 - 2 ^ 63"

definition group_sum :: "(fval list \<Rightarrow> fval) \<Rightarrow> numval list \<Rightarrow> nat list \<Rightarrow> numval" where
  "group_sum fsum col ps =
     (if list_all is_int col
      then IntV (wrap_int64 (sum_list (map (\<lambda>p. int_of_num (col ! p)) ps)))
      else FloatV (fsum (map (\<lambda>p. to_float (col ! p)) ps)))"

definition groupby_index_sum :: "(fval list \<Rightarrow> fval) \<Rightarrow> numval dataframe \<Rightarrow> numval dataframe" where
  "groupby_index_sum fsum df =
     (let keys = sort (remdups (index df))
      in \<lparr>index = keys, columns = columns df,
          cells = map (\<lambda>k. map (\<lambda>j. group_sum fsum (column_at df j) (positions_of (index df) k))
                              [0..<length (columns df)]) keys\<rparr>)"

text \<open>\<^verbatim>\<open>df.isnull().values.any()\<close> and \<^verbatim>\<open>df.fillna(0)\<close>.\<close>

definition has_missing :: "numval dataframe \<Rightarrow> bool" where
  "has_missing df = list_ex (list_ex is_missing) (cells df)"

definition fillna_num :: "numval \<Rightarrow> numval" where
  "fillna_num n = (if is_missing n then FloatV (Fin 0) else n)"

definition clean_and_validate_df ::
  "(string \<Rightarrow> fval option) \<Rightarrow> (string \<Rightarrow> numval option) \<Rightarrow> (fval list \<Rightarrow> fval)
     \<Rightarrow> raw dataframe \<Rightarrow> label \<Rightarrow> pyerr + numval dataframe" where
  "clean_and_validate_df py_float pd_numeric fsum df index_name =
     (let df_clean = (if index_name \<in> set (index df) then drop_label df index_name else df);
          converted = (case astype_float py_float df_clean of
                         Inr d \<Rightarrow> Inr d
                       | Inl e \<Rightarrow> if e = ValueError then Inr (apply_to_numeric pd_numeric df_clean)
                                  else Inl e)
      in case converted of
           Inl e \<Rightarrow> Inl e
         | Inr df_num \<Rightarrow>
             let summed = (if \<not> distinct (index df_num) then groupby_index_sum fsum df_num
                           else df_num)
             in Inr (if has_missing summed then map_cells fillna_num summed else summed))"

text \<open>
  \<^verbatim>\<open>pd.concat(dfs, axis=1, join='outer')\<close> is a parameter. The cleaning runs with the
  default \<^verbatim>\<open>index_name='GENE'\<close>.
\<close>

definition merge_expression_tables ::
  "(raw dataframe list \<Rightarrow> pyerr + raw dataframe) \<Rightarrow> (string \<Rightarrow> fval option)
     \<Rightarrow> (string \<Rightarrow> numval option) \<Rightarrow> (fval list \<Rightarrow> fval) \<Rightarrow> raw dataframe list
     \<Rightarrow> pyerr + numval dataframe" where
  "merge_expression_tables concat_columns py_float pd_numeric fsum dfs =
     (if dfs = [] then Inl ValueError
      else
        case concat_columns dfs of
          Inl e \<Rightarrow> Inl e
        | Inr combined \<Rightarrow> clean_and_validate_df py_float pd_numeric fsum combined ''GENE'')"

section \<open>shared\_utils/sc\_clustering.py\<close>

text \<open>
  What the function prints is part of its result: the list of messages, in order.
\<close>

datatype message =
    Starting
  | WarnDropping int
  | ErrNoTargets "label list"
  | BenchmarkingAgainst "label list"
  | ProcessingK int
  | MethodFailed string pyerr
  | Done

text \<open>
  A leaderboard row is the Python dictionary with the keys \<open>Method\<close> and \<open>k\<close> and
  one key per score; the scores are kept as an association list, updated as a
  dictionary is.
\<close>

record leaderboard_row =
  row_method :: string
  row_k :: int
  row_scores :: "(string \<times> real) list"

text \<open>
  The scikit-learn routines are parameters: \<open>fit_predict\<close> builds the model named by
  the method for \<open>k\<close> clusters and fits it on the coordinates; the two scores compare
  the true labels with the predicted ones. Each returns its value or raises. The true
  labels are what \<^verbatim>\<open>meta_aligned[target].astype(str).values\<close> yields: one list of
  strings per column that carries the target label (a single one when the column
  labels are distinct). \<open>round3\<close> is \<^verbatim>\<open>round(x, 3)\<close>.
\<close>

record ('a, 'm) sklearn =
  fit_predict :: "string \<Rightarrow> int \<Rightarrow> 'a list list \<Rightarrow> pyerr + int list"
  adjusted_mutual_info_score :: "string list list \<Rightarrow> int list \<Rightarrow> pyerr + real"
  adjusted_rand_score :: "string list list \<Rightarrow> int list \<Rightarrow> pyerr + real"
  astype_str :: "'m \<Rightarrow> string"
  round3 :: "real \<Rightarrow> real"

definition method_names :: "string list" where
  "method_names = [''KMeans'', ''HClust'', ''Spectral'']"

definition columns_labelled :: "'a dataframe \<Rightarrow> label \<Rightarrow> 'a list list" where
  "columns_labelled df c = map (column_at df) (positions_of (columns df) c)"

definition y_true :: "('a, 'm) sklearn \<Rightarrow> 'm dataframe \<Rightarrow> label \<Rightarrow> string list list" where
  "y_true lib meta_aligned target = map (map (astype_str lib)) (columns_labelled meta_aligned target)"

text \<open>The loop over the valid targets, which fills the row.\<close>

fun score_targets ::
  "('a, 'm) sklearn \<Rightarrow> 'm dataframe \<Rightarrow> int list \<Rightarrow> label list \<Rightarrow> (string \<times> real) list
     \<Rightarrow> pyerr + (string \<times> real) list" where
  "score_targets lib meta_aligned labels_pred [] row = Inr row"
| "score_targets lib meta_aligned labels_pred (target # targets) row =
     (case adjusted_mutual_info_score lib (y_true lib meta_aligned target) labels_pred of
        Inl e \<Rightarrow> Inl e
      | Inr ami \<Rightarrow>
          (case adjusted_rand_score lib (y_true lib meta_aligned target) labels_pred of
             Inl e \<Rightarrow> Inl e
           | Inr ari \<Rightarrow>
               score_targets lib meta_aligned labels_pred targets
                 (AList.update (''ARI_'' @ target) (round3 lib ari)
                    (AList.update (''AMI_'' @ target) (round3 lib ami) row))))"

text \<open>The body of the \<^verbatim>\<open>try\<close> block: the row, or the exception that was raised.\<close>

definition try_method ::
  "('a, 'm) sklearn \<Rightarrow> 'a dataframe \<Rightarrow> 'm dataframe \<Rightarrow> label list \<Rightarrow> int \<Rightarrow> string
     \<Rightarrow> pyerr + leaderboard_row" where
  "try_method lib pca_aligned meta_aligned valid_targets k method_name =
     (case fit_predict lib method_name k (cells pca_aligned) of
        Inl e \<Rightarrow> Inl e
      | Inr labels_pred \<Rightarrow>
          (case score_targets lib meta_aligned labels_pred valid_targets [] of
             Inl e \<Rightarrow> Inl e
           | Inr sc \<Rightarrow> Inr \<lparr>row_method = method_name, row_k = k, row_scores = sc\<rparr>))"

text \<open>
  The two loops thread the messages and the rows collected so far. An exception in the
  \<^verbatim>\<open>try\<close> block is printed and the row is skipped.
\<close>

fun run_methods ::
  "('a, 'm) sklearn \<Rightarrow> 'a dataframe \<Rightarrow> 'm dataframe \<Rightarrow> label list \<Rightarrow> int \<Rightarrow> string list
     \<Rightarrow> message list \<times> leaderboard_row list \<Rightarrow> message list \<times> leaderboard_row list" where
  "run_methods lib pa ma vt k [] st = st"
| "run_methods lib pa ma vt k (m # ms) (msgs, all_results) =
     (case try_method lib pa ma vt k m of
        Inl e \<Rightarrow> run_methods lib pa ma vt k ms (msgs @ [MethodFailed m e], all_results)
      | Inr row \<Rightarrow> run_methods lib pa ma vt k ms (msgs, all_results @ [row]))"

fun run_ks ::
  "('a, 'm) sklearn \<Rightarrow> 'a dataframe \<Rightarrow> 'm dataframe \<Rightarrow> label list \<Rightarrow> int list
     \<Rightarrow> message list \<times> leaderboard_row list \<Rightarrow> message list \<times> leaderboard_row list" where
  "run_ks lib pa ma vt [] st = st"
| "run_ks lib pa ma vt (k # ks) (msgs, all_results) =
     run_ks lib pa ma vt ks (run_methods lib pa ma vt k method_names (msgs @ [ProcessingK k], all_results))"

text \<open>
  \<^verbatim>\<open>sort_values(by=primary_sort, ascending=False)\<close>: descending by the score, rows
  without the score last. (pandas sorts with an unstable sort, so the order among equal
  scores is unspecified; the model keeps their order.)
\<close>

definition descending_key :: "string \<Rightarrow> leaderboard_row \<Rightarrow> nat \<times> real" where
  "descending_key column r =
     (case map_of (row_scores r) column of Some v \<Rightarrow> (0, - v) | None \<Rightarrow> (1, 0))"

definition sort_values_descending :: "string \<Rightarrow> leaderboard_row list \<Rightarrow> leaderboard_row list" where
  "sort_values_descending column rows = sort_key (descending_key column) rows"

definition has_column :: "leaderboard_row list \<Rightarrow> string \<Rightarrow> bool" where
  "has_column rows column = list_ex (\<lambda>r. column \<in> set (map fst (row_scores r))) rows"

text \<open>Everything after the alignment: target validation, the loops, the final sort.\<close>

definition benchmark_aligned ::
  "('a, 'm) sklearn \<Rightarrow> 'a dataframe \<Rightarrow> 'm dataframe \<Rightarrow> int list \<Rightarrow> label list
     \<Rightarrow> message list \<times> leaderboard_row list" where
  "benchmark_aligned lib pca_aligned meta_aligned n_clusters_range target_cols =
     (let valid_targets = filter (\<lambda>col. col \<in> set (columns meta_aligned)) target_cols
      in if valid_targets = [] then ([ErrNoTargets target_cols], [])
         else
           let (msgs, all_results) =
                 run_ks lib pca_aligned meta_aligned valid_targets n_clusters_range
                   ([BenchmarkingAgainst valid_targets], []);
               primary_sort = ''AMI_'' @ hd valid_targets;
               results_df =
                 (if all_results \<noteq> [] \<and> has_column all_results primary_sort
                  then sort_values_descending primary_sort all_results else all_results)
           in (msgs @ [Done], results_df))"

definition run_clustering_benchmark ::
  "('a, 'm) sklearn \<Rightarrow> 'a dataframe \<Rightarrow> 'm dataframe \<Rightarrow> int list \<Rightarrow> label list
     \<Rightarrow> pyerr + (message list \<times> leaderboard_row list)" where
  "run_clustering_benchmark lib pca_df cell_metadata n_clusters_range target_cols =
     (let common_index = index_intersection (index pca_df) (index cell_metadata);
          warning =
            (if length common_index < length (index pca_df)
             then [WarnDropping (int (length (index pca_df)) - int (length common_index))]
             else [])
      in case loc_rows pca_df common_index of
           Inl e \<Rightarrow> Inl e
         | Inr pca_aligned \<Rightarrow>
             (case loc_rows cell_metadata common_index of
                Inl e \<Rightarrow> Inl e
              | Inr meta_aligned \<Rightarrow>
                  (let (msgs, results_df) =
                         benchmark_aligned lib pca_aligned meta_aligned n_clusters_range target_cols
                   in Inr (Starting # warning @ msgs, results_df))))"

text \<open>
  The rows the loops are expected to collect: for each \<open>k\<close> in order and each of the
  three methods in order, the row of the attempt if it did not raise.
\<close>

definition successful_rows ::
  "('a, 'm) sklearn \<Rightarrow> 'a dataframe \<Rightarrow> 'm dataframe \<Rightarrow> label list \<Rightarrow> int list
     \<Rightarrow> leaderboard_row list" where
  "successful_rows lib pa ma vt ks =
     concat (map (\<lambda>k. concat (map (\<lambda>m. case try_method lib pa ma vt k m of
                                           Inl e \<Rightarrow> [] | Inr row \<Rightarrow> [row]) method_names)) ks)"





section \<open>Dataset loaders and metadata\<close>

text \<open>
  \<open>load_gse74596_data\<close> (Datasets/GSE74596/sc\_loader.py). Its two helpers read files;
  what they return (the metadata table and the count matrix) are the arguments here.
\<close>

definition load_gse74596_data ::
  "'m dataframe \<Rightarrow> 'a dataframe \<Rightarrow> pyerr + ('a dataframe \<times> 'm dataframe)" where
  "load_gse74596_data meta_df raw_counts =
     (if df_empty raw_counts then Inl ValueError
      else
        let common = index_intersection (columns raw_counts) (index meta_df)
        in if common = [] then Inr (raw_counts, meta_df)
           else
             case getitem_columns raw_counts common of
               Inl e \<Rightarrow> Inl e
             | Inr counts \<Rightarrow>
                 (case loc_rows meta_df common of
                    Inl e \<Rightarrow> Inl e
                  | Inr meta \<Rightarrow> Inr (counts, meta)))"

text \<open>
  \<open>load_gse42268_data\<close> (Datasets/GSE42268/sc\_loader.py) lists the \<open>.txt\<close> files of a
  folder and raises when there is none; reading and assembling the files is a
  parameter, as is the list of files found.
\<close>

definition load_gse42268_data :: "'f list \<Rightarrow> ('f list \<Rightarrow> pyerr + 'r) \<Rightarrow> pyerr + 'r" where
  "load_gse42268_data files load_files =
     (if files = [] then Inl ValueError else load_files files)"

text \<open>
  \<open>prepare_sample_metadata\<close> (Datasets/GSE41265/sc\_metadata.py) returns an empty
  table for an empty run table; the consolidation, labelling and merging of a
  non-empty one is a parameter.
\<close>

definition prepare_sample_metadata ::
  "'s dataframe \<Rightarrow> 'q \<Rightarrow> 'p \<Rightarrow> ('s dataframe \<Rightarrow> 'q \<Rightarrow> 'p \<Rightarrow> pyerr + 'c dataframe)
     \<Rightarrow> pyerr + 'c dataframe" where
  "prepare_sample_metadata sra_run_table_df qc_metrics_df pca_df build =
     (if df_empty sra_run_table_df then Inr empty_df
      else build sra_run_table_df qc_metrics_df pca_df)"

section \<open>Reference float routines and example tables\<close>

text \<open>
  The numerical routines of pandas, numpy and scikit-learn are parameters of the
  model, so every theorem holds whatever they compute. To run the model on examples
  the parameters are instantiated with exact-arithmetic reference versions (rounding
  is not modelled): \<open>nansum\<close> is the pandas sum, which skips NaN.
\<close>

fun fadd :: "fval \<Rightarrow> fval \<Rightarrow> fval" where
  "fadd NaN _ = NaN"
| "fadd _ NaN = NaN"
| "fadd PInf NInf = NaN"
| "fadd NInf PInf = NaN"
| "fadd PInf _ = PInf"
| "fadd _ PInf = PInf"
| "fadd NInf _ = NInf"
| "fadd _ NInf = NInf"
| "fadd (Fin a) (Fin b) = Fin (a + b)"

definition nansum :: "fval list \<Rightarrow> fval" where
  "nansum xs = foldl fadd (Fin 0) (filter (\<lambda>x. x \<noteq> NaN) xs)"

text \<open>
  Reference versions of \<open>x + 1\<close>, \<open>log2\<close> and \<open>log1p\<close> with the IEEE special cases.
\<close>

definition ref_add_one :: "fval \<Rightarrow> fval" where
  "ref_add_one x = fadd x (Fin 1)"

fun ref_log2 :: "fval \<Rightarrow> fval" where
  "ref_log2 (Fin x) = (if 0 < x then Fin (log 2 x) else if x = 0 then NInf else NaN)"
| "ref_log2 PInf = PInf"
| "ref_log2 NInf = NaN"
| "ref_log2 NaN = NaN"

fun ref_log1p :: "fval \<Rightarrow> fval" where
  "ref_log1p (Fin x) = (if - 1 < x then Fin (ln (1 + x)) else if x = - 1 then NInf else NaN)"
| "ref_log1p PInf = PInf"
| "ref_log1p NInf = NaN"
| "ref_log1p NaN = NaN"

text \<open>
  A stand-in for the PCA routine with the documented output shape (one row per sample,
  \<open>n_components\<close> coordinates each; a negative \<open>n_components\<close> is refused), used only
  to run \<open>run_pca_pipeline\<close> on an example.
\<close>

definition shape_only_pca :: "int \<Rightarrow> real list list \<Rightarrow> pyerr + (real list list \<times> real list \<times> unit)" where
  "shape_only_pca n X =
     (if n < 0 then Inl ValueError
      else Inr (map (\<lambda>r. replicate (nat n) 0) X, replicate (nat n) 0, ()))"

definition tpm_example :: "fval dataframe" where
  "tpm_example =
     \<lparr>index = [''g1'', ''g2'', ''g3''], columns = [''s1'', ''s2'', ''s3''],
      cells = [[Fin 5, Fin 0, Fin 7], [Fin 3, Fin 0, NaN], [Fin 0, Fin 2, Fin 9]]\<rparr>"

definition scaled_example :: "real dataframe" where
  "scaled_example =
     \<lparr>index = [''g1'', ''g2''], columns = [''s1'', ''s2'', ''s3''],
      cells = [[1, 2, 3], [4, 4, 4]]\<rparr>"

text \<open>
  Reference versions of float division and of the pandas row reductions: the mean
  skips NaN; the variance is the sample variance (\<open>ddof = 1\<close>) of the values that
  are not NaN, and NaN when fewer than two remain or one is infinite.
\<close>

fun fdiv :: "fval \<Rightarrow> fval \<Rightarrow> fval" where
  "fdiv NaN _ = NaN"
| "fdiv _ NaN = NaN"
| "fdiv (Fin a) (Fin b) =
     (if b \<noteq> 0 then Fin (a / b) else if a = 0 then NaN else if 0 < a then PInf else NInf)"
| "fdiv (Fin a) _ = Fin 0"
| "fdiv PInf (Fin b) = (if 0 \<le> b then PInf else NInf)"
| "fdiv NInf (Fin b) = (if 0 \<le> b then NInf else PInf)"
| "fdiv _ _ = NaN"

definition ref_mean :: "fval list \<Rightarrow> fval" where
  "ref_mean xs =
     (let ys = filter (\<lambda>x. x \<noteq> NaN) xs
      in if ys = [] then NaN else fdiv (nansum ys) (Fin (real (length ys))))"

fun finite_part :: "fval list \<Rightarrow> real list option" where
  "finite_part [] = Some []"
| "finite_part (Fin x # xs) = map_option ((#) x) (finite_part xs)"
| "finite_part (_ # xs) = None"

definition ref_var :: "fval list \<Rightarrow> fval" where
  "ref_var xs =
     (case finite_part (filter (\<lambda>x. x \<noteq> NaN) xs) of
        None \<Rightarrow> NaN
      | Some rs \<Rightarrow>
          if length rs \<le> 1 then NaN
          else Fin (sum_list (map (\<lambda>r. (r - mean rs)\<^sup>2) rs) / (real (length rs) - 1)))"

text \<open>
  A reference version of the scaler over exact arithmetic (rounding and overflow are
  not modelled). As scikit-learn's input validation does, it refuses with
  \<open>ValueError\<close> a table without samples, a table with a repeated feature label and a
  table with an infinite value. Otherwise each feature (a column of the
  samples-by-features table) is centred on the mean and divided by the population
  standard deviation of its values that are not NaN, a feature of zero variance is only
  centred, and NaN stays NaN.
\<close>

fun isfinite :: "fval \<Rightarrow> bool" where
  "isfinite (Fin x) = True"
| "isfinite _ = False"

definition is_inf :: "fval \<Rightarrow> bool" where
  "is_inf v \<longleftrightarrow> v = PInf \<or> v = NInf"

definition known_values :: "fval list \<Rightarrow> real list" where
  "known_values col = concat (map (\<lambda>v. case v of Fin x \<Rightarrow> [x] | _ \<Rightarrow> []) col)"

definition standardize_column :: "fval list \<Rightarrow> fval list" where
  "standardize_column col =
     (let xs = known_values col; s = sqrt (pvariance xs); scale = (if s = 0 then 1 else s)
      in map (\<lambda>v. case v of Fin x \<Rightarrow> Fin ((x - mean xs) / scale) | _ \<Rightarrow> NaN) col)"

definition standard_scaler :: "fval dataframe \<Rightarrow> pyerr + fval list list" where
  "standard_scaler X =
     (if index X = [] \<or> \<not> distinct (columns X) \<or> list_ex (list_ex is_inf) (cells X)
      then Inl ValueError
      else Inr (np_T (map standardize_column (np_T (cells X)))))"

text \<open>
  Two genes over three samples, the second constant; the same cells under a repeated
  gene label; and a table with an infinite value.
\<close>

definition scale_example :: "fval dataframe" where
  "scale_example =
     \<lparr>index = [''g1'', ''g2''], columns = [''s1'', ''s2'', ''s3''],
      cells = [[Fin 1, Fin 2, Fin 3], [Fin 4, Fin 4, Fin 4]]\<rparr>"

definition scale_repeated :: "fval dataframe" where
  "scale_repeated = scale_example\<lparr>index := [''g1'', ''g1'']\<rparr>"

definition scale_infinite :: "fval dataframe" where
  "scale_infinite =
     \<lparr>index = [''g1'', ''g2''], columns = [''s1'', ''s2''],
      cells = [[Fin 1, PInf], [Fin 2, Fin 3]]\<rparr>"

text \<open>
  Reference parsers, restricted to unsigned decimal integers (enough for the
  examples): Python's \<open>float\<close> reads such a string as a float, pandas as an integer.
\<close>

fun digits_value :: "nat \<Rightarrow> string \<Rightarrow> nat option" where
  "digits_value acc [] = Some acc"
| "digits_value acc (c # cs) =
     (if CHR ''0'' \<le> c \<and> c \<le> CHR ''9''
      then digits_value (10 * acc + (of_char c - 48)) cs else None)"

definition parse_nat :: "string \<Rightarrow> nat option" where
  "parse_nat s = (if s = [] then None else digits_value 0 s)"

definition ref_py_float :: "string \<Rightarrow> fval option" where
  "ref_py_float s = map_option (\<lambda>n. Fin (real n)) (parse_nat s)"

definition ref_pd_numeric :: "string \<Rightarrow> numval option" where
  "ref_pd_numeric s = map_option (\<lambda>n. IntV (int n)) (parse_nat s)"

text \<open>
  A raw table read as text: the first sample holds integers, the second has an entry
  that is not a number. A second raw table repeats a gene and carries a header row.
\<close>

definition raw_example :: "raw dataframe" where
  "raw_example =
     \<lparr>index = [''g1'', ''g2''], columns = [''s1'', ''s2''],
      cells = [[RStr ''1'', RStr ''x''], [RStr ''2'', RStr ''3'']]\<rparr>"

definition raw_duplicated :: "raw dataframe" where
  "raw_duplicated =
     \<lparr>index = [''g2'', ''GENE'', ''g1'', ''g2''], columns = [''s1''],
      cells = [[RFloat (Fin 1)], [RStr ''s1''], [RFloat NaN], [RFloat (Fin 2)]]\<rparr>"

text \<open>
  A stand-in for scikit-learn, used only to run the benchmark on examples. Fitting
  raises \<open>ValueError\<close> where the scikit-learn models do: when asked for fewer than one
  cluster or for more clusters than samples, and, for the spectral model, which builds
  a graph of the 10 nearest neighbours, when there are fewer than 10 samples. Otherwise
  it deals the samples round-robin into \<open>k\<close> clusters. The scores need a single column
  of true labels of the length of the prediction; their values are placeholders (the
  reciprocal of the number of predicted clusters for the mutual information score, 0
  for the Rand score), not the values scikit-learn computes.
\<close>

definition toy_fit_predict :: "string \<Rightarrow> int \<Rightarrow> real list list \<Rightarrow> pyerr + int list" where
  "toy_fit_predict method_name k X =
     (if k < 1 \<or> int (length X) < k \<or> (method_name = ''Spectral'' \<and> length X < 10)
      then Inl ValueError
      else Inr (map (\<lambda>i. int i mod k) [0..<length X]))"

definition toy_ami :: "string list list \<Rightarrow> int list \<Rightarrow> pyerr + real" where
  "toy_ami labels_true labels_pred =
     (case labels_true of
        [col] \<Rightarrow> if length col = length labels_pred
                   then Inr (1 / real (length (remdups labels_pred))) else Inl ValueError
      | _ \<Rightarrow> Inl ValueError)"

definition toy_ari :: "string list list \<Rightarrow> int list \<Rightarrow> pyerr + real" where
  "toy_ari labels_true labels_pred =
     (case labels_true of
        [col] \<Rightarrow> if length col = length labels_pred then Inr 0 else Inl ValueError
      | _ \<Rightarrow> Inl ValueError)"

definition ref_round3 :: "real \<Rightarrow> real" where
  "ref_round3 x = real_of_int (round (x * 1000)) / 1000"

definition toy_sklearn :: "(real, string) sklearn" where
  "toy_sklearn =
     \<lparr>fit_predict = toy_fit_predict, adjusted_mutual_info_score = toy_ami,
      adjusted_rand_score = toy_ari, astype_str = id, round3 = ref_round3\<rparr>"

text \<open>
  Coordinates of two samples, and a metadata table that knows a third sample the
  coordinates do not have.
\<close>

definition pca_example :: "real dataframe" where
  "pca_example =
     \<lparr>index = [''c1'', ''c2''], columns = [''PC1''], cells = [[1], [- 1]]\<rparr>"

definition meta_example :: "string dataframe" where
  "meta_example =
     \<lparr>index = [''c2'', ''c1'', ''c3''], columns = [''Stage''],
      cells = [[''late''], [''early''], [''late'']]\<rparr>"

text \<open>
  Reference version of \<^verbatim>\<open>pd.concat(dfs, axis=1)\<close> for frames that share one index
  (the only case the examples use); other inputs are refused.
\<close>

definition concat_equal_index :: "'a dataframe list \<Rightarrow> pyerr + 'a dataframe" where
  "concat_equal_index dfs =
     (case dfs of
        [] \<Rightarrow> Inl ValueError
      | d # ds \<Rightarrow>
          if list_all (\<lambda>x. index x = index d) ds
          then Inr \<lparr>index = index d, columns = concat (map columns dfs),
                    cells = map (\<lambda>i. concat (map (\<lambda>x. cells x ! i) dfs)) [0..<length (index d)]\<rparr>
          else Inl ValueError)"

text \<open>A table with three distinct genes, and one in which a gene label repeats.\<close>

definition hvg_example :: "fval dataframe" where
  "hvg_example =
     \<lparr>index = [''g1'', ''g2'', ''g3''], columns = [''s1'', ''s2''],
      cells = [[Fin 2, Fin 2], [Fin 1, Fin 3], [Fin 0, Fin 4]]\<rparr>"

definition hvg_repeated :: "fval dataframe" where
  "hvg_repeated =
     \<lparr>index = [''g1'', ''g1''], columns = [''s1'', ''s2''],
      cells = [[Fin 1, Fin 3], [Fin 2, Fin 2]]\<rparr>"

definition log_example :: "fval dataframe" where
  "log_example = \<lparr>index = [''g1'', ''g2''], columns = [''s1''], cells = [[Fin 0], [NaN]]\<rparr>"

text \<open>A store that holds the example table next to another table and a QC table.\<close>

definition store_example :: store where
  "store_example =
     \<lparr>frames = [log_example, tpm_example],
      qc_tables = [\<lparr>index = [''s9''], columns = [''n_genes_detected''], cells = [[Count 7]]\<rparr>]\<rparr>"

text \<open>The same cells under a repeated sample label.\<close>

definition tpm_repeated :: "fval dataframe" where
  "tpm_repeated = tpm_example\<lparr>columns := [''s1'', ''s2'', ''s1'']\<rparr>"

section \<open>Facts about pandas indexing\<close>

lemma mask_select_nth:
  "length m = length xs \<Longrightarrow> mask_select xs m = map ((!) xs) (filter ((!) m) [0..<length xs])"
proof (induction xs m rule: list_induct2')
  case (4 x xs b bs)
  have "[0..<length (x # xs)] = 0 # map Suc [0..<length xs]"
    by (simp add: upt_conv_Cons map_Suc_upt del: upt_Suc)
  then show ?case using 4 by (simp add: mask_select_def filter_map comp_def)
qed (simp_all add: mask_select_def)

lemma mask_select_map_upt:
  "mask_select xs (map P [0..<length xs]) = map ((!) xs) (filter P [0..<length xs])"
proof -
  have "filter ((!) (map P [0..<length xs])) [0..<length xs] = filter P [0..<length xs]"
    by (rule filter_cong) simp_all
  then show ?thesis by (simp add: mask_select_nth)
qed

lemma mask_select_nths: "mask_select xs m = nths xs {i. i < length m \<and> m ! i}"
proof (induction xs arbitrary: m)
  case Nil then show ?case by (simp add: mask_select_def)
next
  case (Cons x xs)
  show ?case
  proof (cases m)
    case Nil then show ?thesis by (simp add: mask_select_def)
  next
    case (Cons b bs)
    have "{j. Suc j < Suc (length bs) \<and> (b # bs) ! Suc j} = {i. i < length bs \<and> bs ! i}" by simp
    then show ?thesis using Cons Cons.IH[of bs]
      by (auto simp add: mask_select_def nths_Cons)
  qed
qed

lemma count_gt_column:
  assumes "length (cells df) = length (index df)"
  shows "count_gt t (column_at df j)
           = length (filter (\<lambda>i. fgt (cells df ! i ! j) t) [0..<length (index df)])"
proof -
  have "column_at df j = map (\<lambda>i. cells df ! i ! j) [0..<length (cells df)]"
    unfolding column_at_def by (rule nth_equalityI) simp_all
  then show ?thesis using assms by (simp add: count_gt_def filter_map comp_def)
qed

lemma samples_mask_eq:
  assumes "length (cells df) = length (index df)"
  shows "map (\<lambda>p. mg \<le> int (snd p)) (detected_per_sample t df)
           = map (\<lambda>j. mg \<le> int (length (filter (\<lambda>i. fgt (cells df ! i ! j) t) [0..<length (index df)])))
               [0..<length (columns df)]"
  by (simp add: detected_per_sample_def count_gt_column[OF assms] comp_def)

lemma loc_columns_mask_kept:
  assumes "wf_df df"
  shows "loc_columns_mask df (map (\<lambda>p. mg \<le> int (snd p)) (detected_per_sample t df))
           = submatrix df [0..<length (index df)] (kept_samples df t mg)"
proof -
  let ?P = "\<lambda>j. mg \<le> int (length (filter (\<lambda>i. fgt (cells df ! i ! j) t) [0..<length (index df)]))"
  let ?n = "length (columns df)"
  from assms have len: "length (cells df) = length (index df)"
    and rows: "\<And>r. r \<in> set (cells df) \<Longrightarrow> length r = ?n"
    by (simp_all add: wf_df_def list_all_iff)
  have m: "map (\<lambda>p. mg \<le> int (snd p)) (detected_per_sample t df) = map ?P [0..<?n]"
    by (rule samples_mask_eq[OF len])
  have c: "mask_select (columns df) (map ?P [0..<?n]) = map ((!) (columns df)) (kept_samples df t mg)"
    by (simp add: mask_select_map_upt kept_samples_def)
  have r: "mask_select r (map ?P [0..<?n]) = map ((!) r) (kept_samples df t mg)"
    if "r \<in> set (cells df)" for r
    using mask_select_map_upt[of r ?P] rows[OF that] by (simp add: kept_samples_def)
  have "map (\<lambda>r. mask_select r (map ?P [0..<?n])) (cells df)
          = map (\<lambda>i. map (\<lambda>j. cells df ! i ! j) (kept_samples df t mg)) [0..<length (index df)]"
    by (rule nth_equalityI) (simp_all add: len r)
  moreover have "map ((!) (index df)) [0..<length (index df)] = index df"
    by (rule map_nth)
  ultimately show ?thesis
    unfolding m by (simp add: loc_columns_mask_def submatrix_def c)
qed

lemma submatrix_simps [simp]:
  "index (submatrix df rs cs) = map ((!) (index df)) rs"
  "columns (submatrix df rs cs) = map ((!) (columns df)) cs"
  "cells (submatrix df rs cs) = map (\<lambda>i. map (\<lambda>j. cells df ! i ! j) cs) rs"
  by (simp_all add: submatrix_def)

lemma genes_mask_eq:
  fixes df :: "fval dataframe" and S :: "nat list"
  defines "M \<equiv> submatrix df [0..<length (index df)] S"
  shows "map (\<lambda>p. ms \<le> int (snd p)) (detected_per_gene t M)
           = map (\<lambda>i. ms \<le> int (length (filter (\<lambda>j. fgt (cells df ! i ! j) t) S)))
               [0..<length (index M)]"
  by (rule nth_equalityI)
     (simp_all add: M_def detected_per_gene_def count_gt_def filter_map comp_def)

lemma loc_rows_mask_kept:
  fixes df :: "fval dataframe" and S :: "nat list"
  defines "M \<equiv> submatrix df [0..<length (index df)] S"
  shows "loc_rows_mask M (map (\<lambda>p. ms \<le> int (snd p)) (detected_per_gene t M))
           = submatrix df (kept_genes df t S ms) S"
proof -
  let ?Q = "\<lambda>i. ms \<le> int (length (filter (\<lambda>j. fgt (cells df ! i ! j) t) S))"
  have n: "length (index M) = length (index df)" "length (cells M) = length (index df)"
    by (simp_all add: M_def)
  have m: "map (\<lambda>p. ms \<le> int (snd p)) (detected_per_gene t M) = map ?Q [0..<length (index df)]"
    using genes_mask_eq[of ms t df S] by (simp add: M_def)
  have i: "mask_select (index M) (map ?Q [0..<length (index df)])
             = map ((!) (index M)) (kept_genes df t S ms)"
    using mask_select_map_upt[of "index M" ?Q] by (simp add: n kept_genes_def)
  have c: "mask_select (cells M) (map ?Q [0..<length (index df)])
             = map ((!) (cells M)) (kept_genes df t S ms)"
    using mask_select_map_upt[of "cells M" ?Q] by (simp add: n kept_genes_def)
  have lt: "\<And>k. k \<in> set (kept_genes df t S ms) \<Longrightarrow> k < length (index df)"
    by (simp add: kept_genes_def)
  have i': "map ((!) (index M)) (kept_genes df t S ms) = map ((!) (index df)) (kept_genes df t S ms)"
    by (rule map_cong) (simp_all add: M_def lt)
  have c': "map ((!) (cells M)) (kept_genes df t S ms)
              = map (\<lambda>i. map (\<lambda>j. cells df ! i ! j) S) (kept_genes df t S ms)"
    by (rule map_cong) (simp_all add: M_def lt)
  show ?thesis
    unfolding m by (simp add: loc_rows_mask_def i c i' c') (simp add: M_def submatrix_def c')
qed

lemma positions_of_distinct:
  assumes "distinct ls" "j < length ls"
  shows "positions_of ls (ls ! j) = [j]"
proof -
  have "filter (\<lambda>i. ls ! i = ls ! j) [0..<length ls] = filter (\<lambda>i. i = j) [0..<length ls]"
    by (rule filter_cong) (use assms in \<open>auto simp: nth_eq_iff_index_eq\<close>)
  also have "\<dots> = [j]"
    using assms(2) by (induction ls rule: rev_induct) (auto simp: less_Suc_eq)
  finally show ?thesis by (simp add: positions_of_def)
qed

lemma loc_positions_distinct:
  assumes "distinct ls" "set S \<subseteq> {..<length ls}"
  shows "loc_positions ls (map ((!) ls) S) = Inr S"
proof -
  have "concat (map (positions_of ls) (map ((!) ls) S)) = concat (map (\<lambda>j. [j]) S)"
    using assms by (intro arg_cong[where f=concat]) (auto simp: positions_of_distinct)
  moreover have "\<not> list_ex (\<lambda>k. k \<notin> set ls) (map ((!) ls) S)"
    using assms(2) by (auto simp: list_ex_iff)
  ultimately show ?thesis by (simp add: loc_positions_def)
qed

section \<open>filter\_tpm\_matrix: the two stages\<close>

lemma kept_samples_bound: "set (kept_samples df t mg) \<subseteq> {..<length (columns df)}"
  by (auto simp: kept_samples_def)

lemma series_loc_detected:
  assumes "distinct (columns df)" "set S \<subseteq> {..<length (columns df)}"
  shows "series_loc (detected_per_sample t df) (map ((!) (columns df)) S)
           = Inr (map ((!) (detected_per_sample t df)) S)"
proof -
  have "map fst (detected_per_sample t df) = columns df"
    by (rule nth_equalityI) (simp_all add: detected_per_sample_def)
  then show ?thesis
    using loc_positions_distinct[OF assms] by (simp add: series_loc_def)
qed

lemma reindex_same:
  "map fst s = ix \<Longrightarrow> reindex_for_setitem ix s = Inr (map (\<lambda>p. Some (snd p)) s)"
  by (simp add: reindex_for_setitem_def)

lemma fst_sum_axis0: "map fst (sum_axis0 fsum df) = columns df"
  by (rule nth_equalityI) (simp_all add: sum_axis0_def)

lemma filter_tpm_matrix_nonempty:
  assumes wf: "wf_df df" and ne: "\<not> df_empty df" and d: "distinct (columns df)"
    and S: "kept_samples df t mg \<noteq> []"
  shows "\<exists>qc. filter_tpm_matrix fsum df t mg ms = Inr (two_stage_spec df t mg ms, qc)"
proof -
  define S where "S = kept_samples df t mg"
  define M where "M = submatrix df [0..<length (index df)] S"
  define F where "F = submatrix df (kept_genes df t S ms) S"
  have M: "loc_columns_mask df (map (\<lambda>p. mg \<le> int (snd p)) (detected_per_sample t df)) = M"
    unfolding M_def S_def by (rule loc_columns_mask_kept[OF wf])
  have Mne: "\<not> df_empty M"
    using ne S by (simp add: M_def S_def df_empty_def)
  have F: "loc_rows_mask M (map (\<lambda>p. ms \<le> int (snd p)) (detected_per_gene t M)) = F"
    unfolding M_def F_def by (rule loc_rows_mask_kept)
  have cF: "columns F = map ((!) (columns df)) S" by (simp add: F_def)
  have bound: "set S \<subseteq> {..<length (columns df)}"
    unfolding S_def by (rule kept_samples_bound)
  have sel: "series_loc (detected_per_sample t df) (columns F)
               = Inr (map ((!) (detected_per_sample t df)) S)"
    unfolding cF by (rule series_loc_detected[OF d bound])
  have "map fst (map ((!) (detected_per_sample t df)) S) = columns F"
    using bound by (auto simp: cF detected_per_sample_def)
  then have r1: "reindex_for_setitem (columns F) (map ((!) (detected_per_sample t df)) S)
                  = Inr (map (\<lambda>p. Some (snd p)) (map ((!) (detected_per_sample t df)) S))"
    by (rule reindex_same)
  have r2: "reindex_for_setitem (columns F) (sum_axis0 fsum F)
              = Inr (map (\<lambda>p. Some (snd p)) (sum_axis0 fsum F))"
    by (rule reindex_same) (rule fst_sum_axis0)
  have "two_stage_spec df t mg ms = F"
    by (simp add: two_stage_spec_def F_def S_def Let_def)
  then show ?thesis
    using ne Mne by (simp add: filter_tpm_matrix_def Let_def M F sel r1 r2)
qed

lemma filter_tpm_matrix_none_kept:
  assumes wf: "wf_df df" and ne: "\<not> df_empty df" and S: "kept_samples df t mg = []"
  shows "filter_tpm_matrix fsum df t mg ms = Inr (empty_df, empty_df)"
proof -
  have "loc_columns_mask df (map (\<lambda>p. mg \<le> int (snd p)) (detected_per_sample t df))
          = submatrix df [0..<length (index df)] []"
    using loc_columns_mask_kept[OF wf, of mg t] S by simp
  then show ?thesis
    using ne by (simp add: filter_tpm_matrix_def Let_def df_empty_def)
qed

text \<open>
  Claim C1, as amended. For a non-empty, rectangular genes-by-samples table whose
  sample labels are pairwise distinct, \<open>filter_tpm_matrix\<close> returns (together with
  a QC table) the two-stage result whenever some sample survives the first stage: the
  columns in which at least \<open>min_genes_per_sample\<close> genes are strictly above
  \<open>min_tpm\<close>, and of the rows those that are strictly above \<open>min_tpm\<close> in at
  least \<open>min_samples_per_gene\<close> of the kept columns. When no sample survives it
  returns the empty table, without a gene stage.
\<close>

theorem filter_tpm_matrix_two_stage:
  assumes "wf_df df" and "\<not> df_empty df" and "distinct (columns df)"
  shows "\<exists>qc. filter_tpm_matrix fsum df min_tpm min_genes_per_sample min_samples_per_gene
            = Inr (if kept_samples df min_tpm min_genes_per_sample = [] then empty_df
                   else two_stage_spec df min_tpm min_genes_per_sample min_samples_per_gene, qc)"
proof (cases "kept_samples df min_tpm min_genes_per_sample = []")
  case True
  then show ?thesis using filter_tpm_matrix_none_kept[OF assms(1,2) True] by simp
next
  case False
  then show ?thesis using filter_tpm_matrix_nonempty[OF assms False] by simp
qed

text \<open>
  Witness for C1 on the example table: samples \<open>s1\<close> and \<open>s3\<close> have two genes
  above 1, and only gene \<open>g1\<close> is above 1 in both of them.
\<close>

theorem filter_tpm_matrix_two_stage_witness:
  "wf_df tpm_example \<and> \<not> df_empty tpm_example \<and> distinct (columns tpm_example) \<and>
   (\<exists>qc. filter_tpm_matrix nansum tpm_example (Fin 1) 2 2
       = Inr (\<lparr>index = [''g1''], columns = [''s1'', ''s3''], cells = [[Fin 5, Fin 7]]\<rparr>, qc))"
proof -
  have h: "wf_df tpm_example" "\<not> df_empty tpm_example" "distinct (columns tpm_example)"
    by code_simp+
  have k: "kept_samples tpm_example (Fin 1) 2 \<noteq> []"
    by code_simp
  have s: "two_stage_spec tpm_example (Fin 1) 2 2
             = \<lparr>index = [''g1''], columns = [''s1'', ''s3''], cells = [[Fin 5, Fin 7]]\<rparr>"
    by code_simp
  show ?thesis
    using filter_tpm_matrix_two_stage[OF h, of nansum "Fin 1" 2 2] h k s by simp
qed

text \<open>
  C1 as stated fails on two inputs. With \<open>min_samples_per_gene = 0\<close> and no sample
  passing the first stage, the stated rule keeps every gene (each is detected in at
  least 0 of the kept samples), but the code returns the empty table. With a repeated
  sample label among the kept samples, building the QC table raises \<open>ValueError\<close>.
\<close>

theorem filter_tpm_matrix_two_stage_counterexample:
  "filter_tpm_matrix nansum tpm_example (Fin 1) 5 0 = Inr (empty_df, empty_df) \<and>
   two_stage_spec tpm_example (Fin 1) 5 0
     = \<lparr>index = [''g1'', ''g2'', ''g3''], columns = [], cells = [[], [], []]\<rparr> \<and>
   filter_tpm_matrix nansum tpm_repeated (Fin 1) 2 2 = Inl ValueError"
  by code_simp

text \<open>
  Whatever the function returns as the filtered matrix consists of the rows of the
  input at a set \<open>R\<close> of positions and of its columns at a set \<open>C\<close> of positions,
  in the input's order (\<open>nths\<close> keeps the elements at the given positions, in order).
\<close>

lemma filter_tpm_matrix_returns_submatrix:
  assumes "filter_tpm_matrix fsum df min_tpm min_genes_per_sample min_samples_per_gene = Inr (out, qc)"
  shows "\<exists>R C. index out = nths (index df) R \<and> columns out = nths (columns df) C
           \<and> cells out = map (\<lambda>r. nths r C) (nths (cells df) R)"
proof -
  define sm where "sm = map (\<lambda>p. min_genes_per_sample \<le> int (snd p)) (detected_per_sample min_tpm df)"
  define M where "M = loc_columns_mask df sm"
  define gm where "gm = map (\<lambda>p. min_samples_per_gene \<le> int (snd p)) (detected_per_gene min_tpm M)"
  consider (empty) "out = empty_df" | (final) "out = loc_rows_mask M gm"
    using assms unfolding filter_tpm_matrix_def Let_def sm_def[symmetric] M_def[symmetric] gm_def[symmetric]
    by (auto split: if_splits sum.splits)
  then show ?thesis
  proof cases
    case empty
    have "index out = nths (index df) {} \<and> columns out = nths (columns df) {}
            \<and> cells out = map (\<lambda>r. nths r {}) (nths (cells df) {})"
      by (simp add: empty empty_df_def)
    then show ?thesis by blast
  next
    case final
    let ?C = "{i. i < length sm \<and> sm ! i}" and ?R = "{i. i < length gm \<and> gm ! i}"
    have "index out = nths (index df) ?R \<and> columns out = nths (columns df) ?C
            \<and> cells out = map (\<lambda>r. nths r ?C) (nths (cells df) ?R)"
      by (simp add: final M_def loc_rows_mask_def loc_columns_mask_def mask_select_nths nths_map)
    then show ?thesis by blast
  qed
qed

subsection \<open>The function over the store\<close>

text \<open>
  The function over the store only adds tables, writes only into the QC table it has
  added, and returns what the function on tables returns.
\<close>

lemma new_frame_simps [simp]:
  "fst (new_frame st f) = length (frames st)"
  "frames (snd (new_frame st f)) = frames st @ [f]"
  "qc_tables (snd (new_frame st f)) = qc_tables st"
  by (simp_all add: new_frame_def)

lemma new_qc_simps [simp]:
  "fst (new_qc st q) = length (qc_tables st)"
  "frames (snd (new_qc st q)) = frames st"
  "qc_tables (snd (new_qc st q)) = qc_tables st @ [q]"
  by (simp_all add: new_qc_def)

lemma set_qc_column_simps [simp]:
  "frames (set_qc_column st r name col) = frames st"
  "qc_tables (set_qc_column st r name col)
     = (qc_tables st)[r := add_column (qc_tables st ! r) name col]"
  by (simp_all add: set_qc_column_def)

lemma return_empty_simps [simp]:
  "fst (return_empty st) = Inr (length (frames st), length (qc_tables st))"
  "frames (snd (return_empty st)) = frames st @ [empty_df]"
  "qc_tables (snd (return_empty st)) = qc_tables st @ [empty_df]"
  by (simp_all add: return_empty_def split_def)

lemma index_add_column [simp]: "index (add_column q name col) = index q"
  by (simp add: add_column_def)

lemma filter_tpm_matrix_store_frame:
  "\<exists>F. frames (snd (filter_tpm_matrix_store fsum st d t mg ms)) = frames st @ F"
  by (auto simp: filter_tpm_matrix_store_def Let_def split_def split: sum.splits)

lemma filter_tpm_matrix_store_qc:
  "take (length (qc_tables st)) (qc_tables (snd (filter_tpm_matrix_store fsum st d t mg ms)))
     = qc_tables st"
  by (auto simp: filter_tpm_matrix_store_def Let_def split_def split: sum.splits)

lemma filter_tpm_matrix_store_result:
  "case fst (filter_tpm_matrix_store fsum st d t mg ms) of
     Inl e \<Rightarrow> filter_tpm_matrix fsum (frames st ! d) t mg ms = Inl e
   | Inr (a, b) \<Rightarrow>
       (\<exists>qc. filter_tpm_matrix fsum (frames st ! d) t mg ms
                = Inr (frames (snd (filter_tpm_matrix_store fsum st d t mg ms)) ! a, qc))"
  by (auto simp: filter_tpm_matrix_store_def filter_tpm_matrix_def Let_def split_def
        nth_append split: sum.splits)

text \<open>
  Claim C9. Run on the table at position \<open>d\<close> of a store, the function leaves that
  table as it was, as well as every other table that existed before the call; and the
  filtered matrix it returns (at the new position \<open>a\<close>) is a submatrix of the input:
  its row labels, column labels and cells are those of the input at a set \<open>R\<close> of
  row positions and a set \<open>C\<close> of column positions, in the input's order.
\<close>

theorem filter_tpm_matrix_submatrix:
  fixes st :: store
  defines "res \<equiv> \<lambda>fsum d min_tpm mg ms. filter_tpm_matrix_store fsum st d min_tpm mg ms"
  assumes "d < length (frames st)"
  shows "frames (snd (res fsum d min_tpm min_genes_per_sample min_samples_per_gene)) ! d
           = frames st ! d \<and>
         take (length (frames st))
           (frames (snd (res fsum d min_tpm min_genes_per_sample min_samples_per_gene)))
           = frames st \<and>
         take (length (qc_tables st))
           (qc_tables (snd (res fsum d min_tpm min_genes_per_sample min_samples_per_gene)))
           = qc_tables st \<and>
         (\<forall>a b. fst (res fsum d min_tpm min_genes_per_sample min_samples_per_gene) = Inr (a, b) \<longrightarrow>
            (\<exists>R C. index (frames (snd (res fsum d min_tpm min_genes_per_sample min_samples_per_gene)) ! a)
                      = nths (index (frames st ! d)) R \<and>
                   columns (frames (snd (res fsum d min_tpm min_genes_per_sample min_samples_per_gene)) ! a)
                      = nths (columns (frames st ! d)) C \<and>
                   cells (frames (snd (res fsum d min_tpm min_genes_per_sample min_samples_per_gene)) ! a)
                      = map (\<lambda>r. nths r C) (nths (cells (frames st ! d)) R)))"
proof -
  let ?r = "filter_tpm_matrix_store fsum st d min_tpm min_genes_per_sample min_samples_per_gene"
  obtain F where F: "frames (snd ?r) = frames st @ F"
    using filter_tpm_matrix_store_frame by blast
  have 1: "frames (snd ?r) ! d = frames st ! d"
    using assms(2) by (simp add: F nth_append)
  have 2: "take (length (frames st)) (frames (snd ?r)) = frames st"
    by (simp add: F)
  have 3: "take (length (qc_tables st)) (qc_tables (snd ?r)) = qc_tables st"
    by (rule filter_tpm_matrix_store_qc)
  have 4: "\<exists>R C. index (frames (snd ?r) ! a) = nths (index (frames st ! d)) R \<and>
                 columns (frames (snd ?r) ! a) = nths (columns (frames st ! d)) C \<and>
                 cells (frames (snd ?r) ! a) = map (\<lambda>r. nths r C) (nths (cells (frames st ! d)) R)"
    if "fst ?r = Inr (a, b)" for a b
  proof -
    from filter_tpm_matrix_store_result[of fsum st d min_tpm min_genes_per_sample min_samples_per_gene]
      that
    obtain qc where "filter_tpm_matrix fsum (frames st ! d) min_tpm min_genes_per_sample
        min_samples_per_gene = Inr (frames (snd ?r) ! a, qc)"
      by auto
    then show ?thesis by (rule filter_tpm_matrix_returns_submatrix)
  qed
  show ?thesis
    unfolding res_def using 1 2 3 4 by blast
qed

text \<open>
  Witness for C9: the example table at position 1 of a store; the filtered matrix is
  the new table at position 3.
\<close>

theorem filter_tpm_matrix_submatrix_witness:
  "1 < length (frames store_example) \<and> frames store_example ! 1 = tpm_example \<and>
   fst (filter_tpm_matrix_store nansum store_example 1 (Fin 1) 2 2) = Inr (3, 1) \<and>
   frames (snd (filter_tpm_matrix_store nansum store_example 1 (Fin 1) 2 2)) ! 1 = tpm_example \<and>
   frames (snd (filter_tpm_matrix_store nansum store_example 1 (Fin 1) 2 2)) ! 3
     = \<lparr>index = [''g1''], columns = [''s1'', ''s3''], cells = [[Fin 5, Fin 7]]\<rparr> \<and>
   (\<exists>R C. [''g1''] = nths (index tpm_example) R \<and> [''s1'', ''s3''] = nths (columns tpm_example) C
       \<and> [[Fin 5, Fin 7]] = map (\<lambda>r. nths r C) (nths (cells tpm_example) R))"
proof -
  have h: "1 < length (frames store_example)" and i: "frames store_example ! 1 = tpm_example"
    by (simp_all add: store_example_def)
  have e: "fst (filter_tpm_matrix_store nansum store_example 1 (Fin 1) 2 2) = Inr (3, 1)"
    by code_simp
  have o: "frames (snd (filter_tpm_matrix_store nansum store_example 1 (Fin 1) 2 2)) ! 3
     = \<lparr>index = [''g1''], columns = [''s1'', ''s3''], cells = [[Fin 5, Fin 7]]\<rparr>"
    by code_simp
  note t = filter_tpm_matrix_submatrix[OF h, of nansum "Fin 1" 2 2, unfolded i]
  have u: "frames (snd (filter_tpm_matrix_store nansum store_example 1 (Fin 1) 2 2)) ! 1 = tpm_example"
    using t by blast
  have "\<exists>R C. index (frames (snd (filter_tpm_matrix_store nansum store_example 1 (Fin 1) 2 2)) ! 3)
                 = nths (index tpm_example) R \<and>
               columns (frames (snd (filter_tpm_matrix_store nansum store_example 1 (Fin 1) 2 2)) ! 3)
                 = nths (columns tpm_example) C \<and>
               cells (frames (snd (filter_tpm_matrix_store nansum store_example 1 (Fin 1) 2 2)) ! 3)
                 = map (\<lambda>r. nths r C) (nths (cells tpm_example) R)"
    using t e by blast
  then have x: "\<exists>R C. [''g1''] = nths (index tpm_example) R \<and>
       [''s1'', ''s3''] = nths (columns tpm_example) C \<and>
       [[Fin 5, Fin 7]] = map (\<lambda>r. nths r C) (nths (cells tpm_example) R)"
    unfolding o by simp
  show ?thesis
    by (intro conjI) (fact h i e u o x)+
qed

section \<open>log\_transform\<close>

text \<open>
  Claim C8. On a non-empty frame \<open>log_transform\<close> keeps the row and column labels
  (hence the shape) and replaces every cell \<open>x\<close> by \<open>log2 (x + 1)\<close> when the
  method is the string \<open>log2\<close>, and by \<open>log1p x\<close> for every other method string;
  the default method is \<open>log1p\<close>.
\<close>

theorem log_transform_elementwise:
  assumes "\<not> df_empty df"
  shows "index (log_transform add_one np_log2 np_log1p df method) = index df \<and>
         columns (log_transform add_one np_log2 np_log1p df method) = columns df \<and>
         cells (log_transform add_one np_log2 np_log1p df method)
           = map (map (\<lambda>x. if method = ''log2'' then np_log2 (add_one x) else np_log1p x)) (cells df) \<and>
         log_transform_default add_one np_log2 np_log1p df
           = log_transform add_one np_log2 np_log1p df ''log1p''"
  using assms by (simp add: log_transform_def log_transform_default_def map_cells_def)

text \<open>
  Witness for C8: with the reference routines, method \<open>log2\<close> maps the cell 0 to
  \<open>log2 1 = 0\<close> and keeps NaN; an unrecognised method applies \<open>log1p\<close>.
\<close>

theorem log_transform_elementwise_witness:
  "\<not> df_empty log_example \<and>
   log_transform ref_add_one ref_log2 ref_log1p log_example ''log2''
     = \<lparr>index = [''g1'', ''g2''], columns = [''s1''], cells = [[Fin 0], [NaN]]\<rparr> \<and>
   cells (log_transform ref_add_one ref_log2 ref_log1p log_example ''natural'')
     = [[ref_log1p (Fin 0)], [ref_log1p NaN]]"
proof -
  have h: "\<not> df_empty log_example"
    by (simp add: log_example_def df_empty_def)
  show ?thesis
    using log_transform_elementwise[OF h, of ref_add_one ref_log2 ref_log1p "''log2''"]
      log_transform_elementwise[OF h, of ref_add_one ref_log2 ref_log1p "''natural''"] h
    by (simp add: log_example_def ref_add_one_def log_transform_def map_cells_def df_empty_def)
qed

section \<open>scale\_data\<close>

lemma np_T_rect:
  assumes "rect c a"
  shows "np_T a = map (\<lambda>j. map (\<lambda>row. row ! j) a) [0..<c]"
  using assms by (cases a) (simp_all add: np_T_def rect_def)

lemma rect_np_T:
  assumes "rect c a"
  shows "rect (length a) (np_T a)"
  using assms by (auto simp: np_T_rect[OF assms] rect_def)

lemma np_T_np_T:
  assumes "rect c a"
  shows "np_T (np_T a) = a"
proof -
  have rows: "\<And>i. i < length a \<Longrightarrow> length (a ! i) = c"
    using assms by (simp add: rect_def)
  have "np_T (np_T a) = map (\<lambda>i. map (\<lambda>row. row ! i) (np_T a)) [0..<length a]"
    by (rule np_T_rect[OF rect_np_T[OF assms]])
  also have "\<dots> = a"
  proof (rule nth_equalityI)
    show "length (map (\<lambda>i. map (\<lambda>row. row ! i) (np_T a)) [0..<length a]) = length a" by simp
  next
    fix i assume "i < length (map (\<lambda>i. map (\<lambda>row. row ! i) (np_T a)) [0..<length a])"
    then have i: "i < length a" by simp
    have "map (\<lambda>row. row ! i) (np_T a) = a ! i"
      by (rule nth_equalityI) (simp_all add: np_T_rect[OF assms] rows[OF i] i)
    then show "map (\<lambda>i. map (\<lambda>row. row ! i) (np_T a)) [0..<length a] ! i = a ! i"
      using i by simp
  qed
  finally show ?thesis .
qed

lemma cells_df_T:
  assumes "wf_df df" "\<not> df_empty df"
  shows "rect (length (columns df)) (cells df)" "cells (df_T df) = np_T (cells df)"
proof -
  show r: "rect (length (columns df)) (cells df)"
    using assms by (auto simp: wf_df_def df_empty_def rect_def list_all_iff)
  show "cells (df_T df) = np_T (cells df)"
    by (simp add: np_T_rect[OF r] df_T_def column_at_def)
qed

lemma length_standardize [simp]: "length (standardize xs) = length xs"
  by (simp add: standardize_def Let_def)

lemma sum_list_shift:
  "sum_list (map (\<lambda>x. (x - m) / s) xs) = (sum_list xs - real (length xs) * m) / (s::real)"
proof (induction xs)
  case Nil
  show ?case by simp
next
  case (Cons a xs)
  have "(a - m) / s + (sum_list xs - real (length xs) * m) / s
          = ((a - m) + (sum_list xs - real (length xs) * m)) / s"
    by (simp add: add_divide_distrib)
  also have "(a - m) + (sum_list xs - real (length xs) * m)
          = sum_list (a # xs) - real (length (a # xs)) * m"
    by (simp add: algebra_simps)
  finally show ?case using Cons by simp
qed

lemma mean_standardize:
  assumes "xs \<noteq> []"
  shows "mean (standardize xs) = 0"
proof -
  define s where "s = (if sqrt (pvariance xs) = 0 then 1 else sqrt (pvariance xs))"
  have st: "standardize xs = map (\<lambda>x. (x - mean xs) / s) xs"
    by (simp add: standardize_def Let_def s_def)
  have "sum_list xs - real (length xs) * mean xs = 0"
    using assms by (simp add: mean_def)
  then have "sum_list (map (\<lambda>x. (x - mean xs) / s) xs) = 0"
    by (simp only: sum_list_shift)
  then show ?thesis
    unfolding st by (simp add: mean_def[of "map (\<lambda>x. (x - mean xs) / s) xs"])
qed

lemma pvariance_nonneg: "0 \<le> pvariance xs"
  unfolding pvariance_def by (intro divide_nonneg_nonneg sum_list_nonneg) auto

lemma sum_list_sq_div:
  "sum_list (map (\<lambda>x. ((x - m) / s)\<^sup>2) xs) = sum_list (map (\<lambda>x. (x - m)\<^sup>2) xs) / (s::real)\<^sup>2"
  by (induction xs) (simp_all add: power_divide add_divide_distrib)

lemma pvariance_standardize:
  assumes "pvariance xs \<noteq> 0"
  shows "pvariance (standardize xs) = 1"
proof -
  have ne: "xs \<noteq> []" using assms by (auto simp: pvariance_def)
  let ?s = "sqrt (pvariance xs)"
  have s2: "?s\<^sup>2 = pvariance xs" using pvariance_nonneg[of xs] by simp
  have s0: "?s \<noteq> 0" using assms pvariance_nonneg[of xs] by simp
  have st: "standardize xs = map (\<lambda>x. (x - mean xs) / ?s) xs"
    using s0 by (simp add: standardize_def Let_def)
  have m0: "mean (standardize xs) = 0" by (rule mean_standardize[OF ne])
  have "pvariance (standardize xs)
          = sum_list (map (\<lambda>y. y\<^sup>2) (standardize xs)) / real (length xs)"
    by (simp add: pvariance_def[of "standardize xs"] m0)
  also have "\<dots> = sum_list (map (\<lambda>x. ((x - mean xs) / ?s)\<^sup>2) xs) / real (length xs)"
    by (simp add: st comp_def)
  also have "\<dots> = (sum_list (map (\<lambda>x. (x - mean xs)\<^sup>2) xs) / real (length xs)) / ?s\<^sup>2"
    by (simp add: sum_list_sq_div)
  also have "\<dots> = pvariance xs / pvariance xs"
    unfolding s2 by (simp add: pvariance_def)
  also have "\<dots> = 1" using assms by simp
  finally show ?thesis .
qed

lemma scale_data_returns:
  assumes wf: "wf_df df" and ne: "\<not> df_empty df"
    and ft: "fit_transform (df_T df) = Inr scaled"
    and shape: "length scaled = length (columns df)" "\<forall>r \<in> set scaled. length r = length (index df)"
  shows "scale_data fit_transform df
           = Inr \<lparr>index = index df, columns = columns df, cells = np_T scaled\<rparr>"
    and "wf_df \<lparr>index = index df, columns = columns df, cells = np_T scaled\<rparr>"
    and "g < length (index df) \<Longrightarrow> j < length (columns df) \<Longrightarrow> np_T scaled ! g ! j = scaled ! j ! g"
proof -
  have r: "rect (length (index df)) scaled"
    using ne shape by (auto simp: rect_def df_empty_def)
  note t = np_T_rect[OF r]
  have ok: "length (np_T scaled) = length (index df)"
    "list_all (\<lambda>r. length r = length (columns df)) (np_T scaled)"
    by (simp_all add: t shape(1) list_all_iff)
  show "scale_data fit_transform df
           = Inr \<lparr>index = index df, columns = columns df, cells = np_T scaled\<rparr>"
    using ne ok by (simp add: scale_data_def ft make_frame_def)
  show "wf_df \<lparr>index = index df, columns = columns df, cells = np_T scaled\<rparr>"
    using ok by (simp add: wf_df_def)
  show "g < length (index df) \<Longrightarrow> j < length (columns df) \<Longrightarrow> np_T scaled ! g ! j = scaled ! j ! g"
    by (simp add: t shape(1))
qed

lemma finite_column:
  assumes "list_all isfinite col"
  shows "col = map Fin (known_values col)"
  using assms
proof (induction col)
  case Nil
  show ?case by (simp add: known_values_def)
next
  case (Cons v col)
  then show ?case by (cases v) (simp_all add: known_values_def)
qed

lemma known_values_Fin [simp]: "known_values (map Fin xs) = xs"
  by (induction xs) (simp_all add: known_values_def)

lemma standardize_column_Fin: "standardize_column (map Fin xs) = map Fin (standardize xs)"
  by (simp add: standardize_column_def standardize_def Let_def)

lemma standardize_constant:
  assumes "pvariance xs = 0"
  shows "standardize xs = map (\<lambda>x. x - mean xs) xs"
  using assms by (simp add: standardize_def)

lemma not_inf_finite: "isfinite v \<Longrightarrow> \<not> is_inf v"
  by (cases v) (simp_all add: is_inf_def)

lemma scale_data_standard_scaler:
  fixes df :: "fval dataframe"
  assumes wf: "wf_df df" and ne: "\<not> df_empty df"
    and d: "distinct (index df)" and fin: "list_all (list_all isfinite) (cells df)"
  shows "scale_data standard_scaler df
           = Inr \<lparr>index = index df, columns = columns df,
                   cells = map standardize_column (cells df)\<rparr>"
proof -
  let ?c = "length (columns df)"
  have r: "rect ?c (cells df)" and X: "cells (df_T df) = np_T (cells df)"
    using cells_df_T[OF wf ne] by simp_all
  have c0: "columns df \<noteq> []" using ne by (simp add: df_empty_def)
  have col: "\<And>j v. j < ?c \<Longrightarrow> v \<in> set (column_at df j) \<Longrightarrow> \<not> is_inf v"
  proof -
    fix j v assume j: "j < ?c" and v: "v \<in> set (column_at df j)"
    then obtain row where row: "row \<in> set (cells df)" "v = row ! j"
      by (auto simp: column_at_def)
    then have "length row = ?c" using r by (simp add: rect_def)
    then have "v \<in> set row" using j row(2) by simp
    then have "isfinite v" using fin row(1) by (auto simp: list_all_iff)
    then show "\<not> is_inf v" by (rule not_inf_finite)
  qed
  have noinf: "\<not> list_ex (list_ex is_inf) (cells (df_T df))"
    using col by (auto simp: df_T_def list_ex_iff)
  have rs: "rect ?c (map standardize_column (cells df))"
    using r by (auto simp: rect_def standardize_column_def Let_def)
  have len: "length (cells df) = length (index df)"
    using wf by (simp add: wf_df_def)
  have ix: "index (df_T df) = columns df" "columns (df_T df) = index df"
    by (simp_all add: df_T_def)
  have "standard_scaler (df_T df) = Inr (np_T (map standardize_column (cells df)))"
    using c0 d noinf by (simp add: standard_scaler_def ix X np_T_np_T[OF r])
  moreover have "make_frame (map standardize_column (cells df)) (index df) (columns df)
      = Inr \<lparr>index = index df, columns = columns df, cells = map standardize_column (cells df)\<rparr>"
    using rs len by (simp add: make_frame_def rect_def list_all_iff)
  ultimately show ?thesis
    using ne by (simp add: scale_data_def np_T_np_T[OF rs])
qed

text \<open>
  Claim C5, as amended. For a non-empty rectangular table, \<open>scale_data\<close> hands the
  transposed table to the scaler. When the scaler raises, so does \<open>scale_data\<close>. When
  the scaler returns an array of the shape of the transposed table, \<open>scale_data\<close>
  returns a table with the row labels, the column labels and the shape of the input,
  whose gene row \<open>g\<close> holds what the scaler returned for feature \<open>g\<close>: the scaling is
  gene-wise. With the reference scaler (exact arithmetic), on a table whose gene labels
  are pairwise distinct and whose cells are all finite, every gene row of the result is
  the standardised input row: its mean over the samples is 0, its population variance
  is 1 when the input row has non-zero variance, and a row of zero variance is only
  centred.
\<close>

theorem scale_data_standardises:
  fixes df :: "fval dataframe"
  assumes "wf_df df" and "\<not> df_empty df"
  shows "(\<forall>e. fit_transform (df_T df) = Inl e \<longrightarrow> scale_data fit_transform df = Inl e) \<and>
         (\<forall>scaled. fit_transform (df_T df) = Inr scaled \<and> length scaled = length (columns df) \<and>
                    (\<forall>r \<in> set scaled. length r = length (index df)) \<longrightarrow>
            (\<exists>out. scale_data fit_transform df = Inr out \<and>
               index out = index df \<and> columns out = columns df \<and> wf_df out \<and>
               (\<forall>g < length (index df). \<forall>j < length (columns df).
                  cells out ! g ! j = scaled ! j ! g))) \<and>
         (distinct (index df) \<and> list_all (list_all isfinite) (cells df) \<longrightarrow>
            (\<exists>out. scale_data standard_scaler df = Inr out \<and>
               index out = index df \<and> columns out = columns df \<and> wf_df out \<and>
               (\<forall>g < length (index df).
                  \<exists>xs. cells df ! g = map Fin xs \<and>
                    cells out ! g = map Fin (standardize xs) \<and>
                    mean (standardize xs) = 0 \<and>
                    (pvariance xs \<noteq> 0 \<longrightarrow> pvariance (standardize xs) = 1) \<and>
                    (pvariance xs = 0 \<longrightarrow> standardize xs = map (\<lambda>x. x - mean xs) xs))))"
proof (intro conjI allI impI)
  fix e assume "fit_transform (df_T df) = Inl e"
  then show "scale_data fit_transform df = Inl e"
    using assms(2) by (simp add: scale_data_def)
next
  fix scaled
  assume a: "fit_transform (df_T df) = Inr scaled \<and> length scaled = length (columns df) \<and>
             (\<forall>r \<in> set scaled. length r = length (index df))"
  let ?out = "\<lparr>index = index df, columns = columns df, cells = np_T scaled\<rparr>"
  from a have ft: "fit_transform (df_T df) = Inr scaled"
    and l: "length scaled = length (columns df)"
    and rr: "\<forall>r \<in> set scaled. length r = length (index df)"
    by simp_all
  note sr = scale_data_returns[where fit_transform = fit_transform and scaled = scaled,
      OF assms ft l rr]
  have "\<forall>g < length (index df). \<forall>j < length (columns df). cells ?out ! g ! j = scaled ! j ! g"
    using sr(3) by simp
  then show "\<exists>out. scale_data fit_transform df = Inr out \<and>
               index out = index df \<and> columns out = columns df \<and> wf_df out \<and>
               (\<forall>g < length (index df). \<forall>j < length (columns df).
                  cells out ! g ! j = scaled ! j ! g)"
    using sr(1,2) by (intro exI[of _ ?out]) simp
next
  assume h: "distinct (index df) \<and> list_all (list_all isfinite) (cells df)"
  let ?out = "\<lparr>index = index df, columns = columns df,
                cells = map standardize_column (cells df)\<rparr>"
  have len: "length (cells df) = length (index df)"
    and rows: "\<And>r. r \<in> set (cells df) \<Longrightarrow> length r = length (columns df)"
    using assms(1) by (simp_all add: wf_df_def list_all_iff)
  have c0: "columns df \<noteq> []" using assms(2) by (simp add: df_empty_def)
  have run: "scale_data standard_scaler df = Inr ?out"
    using scale_data_standard_scaler[OF assms] h by simp
  have wf: "wf_df ?out"
    using len rows by (simp add: wf_df_def list_all_iff standardize_column_def Let_def)
  have per: "\<exists>xs. cells df ! g = map Fin xs \<and>
                    cells ?out ! g = map Fin (standardize xs) \<and>
                    mean (standardize xs) = 0 \<and>
                    (pvariance xs \<noteq> 0 \<longrightarrow> pvariance (standardize xs) = 1) \<and>
                    (pvariance xs = 0 \<longrightarrow> standardize xs = map (\<lambda>x. x - mean xs) xs)"
    if g: "g < length (index df)" for g
  proof -
    define xs where "xs = known_values (cells df ! g)"
    have mem: "cells df ! g \<in> set (cells df)" using g len by simp
    then have "list_all isfinite (cells df ! g)" using h by (simp add: list_all_iff)
    then have e: "cells df ! g = map Fin xs"
      unfolding xs_def by (rule finite_column)
    have "length (cells df ! g) = length (columns df)" using rows[OF mem] .
    then have ne: "xs \<noteq> []" using c0 e by auto
    have o: "cells ?out ! g = map Fin (standardize xs)"
      using g len e by (simp add: standardize_column_Fin)
    show ?thesis
      using e o mean_standardize[OF ne] pvariance_standardize[of xs] standardize_constant[of xs]
      by blast
  qed
  show "\<exists>out. scale_data standard_scaler df = Inr out \<and>
               index out = index df \<and> columns out = columns df \<and> wf_df out \<and>
               (\<forall>g < length (index df).
                  \<exists>xs. cells df ! g = map Fin xs \<and>
                    cells out ! g = map Fin (standardize xs) \<and>
                    mean (standardize xs) = 0 \<and>
                    (pvariance xs \<noteq> 0 \<longrightarrow> pvariance (standardize xs) = 1) \<and>
                    (pvariance xs = 0 \<longrightarrow> standardize xs = map (\<lambda>x. x - mean xs) xs))"
    using run wf per by (intro exI[of _ ?out]) simp
qed

text \<open>
  Witness for C5 with the reference scaler: the row \<open>1, 2, 3\<close> comes out with mean 0
  and variance 1, the constant row \<open>4, 4, 4\<close> is only centred.
\<close>

theorem scale_data_standardises_witness:
  "wf_df scale_example \<and> \<not> df_empty scale_example \<and>
   distinct (index scale_example) \<and> list_all (list_all isfinite) (cells scale_example) \<and>
   (\<exists>out ys. scale_data standard_scaler scale_example = Inr out \<and>
      index out = [''g1'', ''g2''] \<and> columns out = [''s1'', ''s2'', ''s3''] \<and>
      cells out ! 0 = map Fin ys \<and> mean ys = 0 \<and> pvariance ys = 1 \<and>
      cells out ! 1 = [Fin 0, Fin 0, Fin 0])"
proof -
  have h: "wf_df scale_example" "\<not> df_empty scale_example"
    by (simp_all add: scale_example_def wf_df_def df_empty_def)
  have f: "distinct (index scale_example) \<and> list_all (list_all isfinite) (cells scale_example)"
    by (simp add: scale_example_def)
  have v: "pvariance [1, 2, 3] \<noteq> 0"
    by (simp add: pvariance_def mean_def power2_eq_square)
  have c: "standardize [4, 4, 4] = [0, 0, 0]"
    by (simp add: standardize_def mean_def pvariance_def)
  from scale_data_standardises[OF h, where fit_transform = standard_scaler,
      THEN conjunct2, THEN conjunct2, rule_format, OF f]
  obtain out where
    o: "scale_data standard_scaler scale_example = Inr out" "index out = index scale_example"
      "columns out = columns scale_example"
      "\<forall>g<length (index scale_example).
          \<exists>xs. cells scale_example ! g = map Fin xs \<and>
            cells out ! g = map Fin (standardize xs) \<and>
            mean (standardize xs) = 0 \<and>
            (pvariance xs \<noteq> 0 \<longrightarrow> pvariance (standardize xs) = 1) \<and>
            (pvariance xs = 0 \<longrightarrow> standardize xs = map (\<lambda>x. x - mean xs) xs)"
    by blast
  have l: "0 < length (index scale_example)" "1 < length (index scale_example)"
    by (simp_all add: scale_example_def)
  have e: "cells scale_example ! 0 = map Fin [1, 2, 3]" "cells scale_example ! 1 = map Fin [4, 4, 4]"
    by (simp_all add: scale_example_def)
  from o(4)[rule_format, OF l(1)] obtain xs where
    x: "cells scale_example ! 0 = map Fin xs" "cells out ! 0 = map Fin (standardize xs)"
      "mean (standardize xs) = 0" "pvariance xs \<noteq> 0 \<longrightarrow> pvariance (standardize xs) = 1"
    by blast
  have "map Fin xs = map Fin [1, 2, 3]" using x(1) e(1) by simp
  then have xs: "xs = [1, 2, 3]" by (auto simp: map_eq_Cons_conv)
  have i0: "cells out ! 0 = map Fin (standardize xs) \<and> mean (standardize xs) = 0 \<and>
            pvariance (standardize xs) = 1"
    using x(2,3,4) v xs by simp
  from o(4)[rule_format, OF l(2)] obtain zs where
    z: "cells scale_example ! 1 = map Fin zs" "cells out ! 1 = map Fin (standardize zs)"
    by blast
  have "map Fin zs = map Fin [4, 4, 4]" using z(1) e(2) by simp
  then have zs: "zs = [4, 4, 4]" by (auto simp: map_eq_Cons_conv)
  have i1: "cells out ! 1 = [Fin 0, Fin 0, Fin 0]"
    using z(2) c zs by simp
  have ix: "index out = [''g1'', ''g2'']" "columns out = [''s1'', ''s2'', ''s3'']"
    using o(2,3) by (simp_all add: scale_example_def)
  show ?thesis
    using h f o(1) ix i0 i1 by blast
qed

text \<open>
  C5 as stated fails: on a non-empty table with a repeated gene label, and on one with
  an infinite value, the scaler raises and no table is returned.
\<close>

theorem scale_data_standardises_counterexample:
  "wf_df scale_repeated \<and> \<not> df_empty scale_repeated \<and>
   scale_data standard_scaler scale_repeated = Inl ValueError \<and>
   wf_df scale_infinite \<and> \<not> df_empty scale_infinite \<and>
   scale_data standard_scaler scale_infinite = Inl ValueError"
  by (simp add: scale_repeated_def scale_example_def scale_infinite_def wf_df_def df_empty_def
      scale_data_def standard_scaler_def df_T_def column_at_def is_inf_def)

section \<open>run\_pca\_pipeline\<close>

lemma index_df_T [simp]: "index (df_T df) = columns df"
  and columns_df_T [simp]: "columns (df_T df) = index df"
  by (simp_all add: df_T_def)

lemma pc_cols_names: "pc_cols n = map (\<lambda>i. ''PC'' @ str_of_nat i) [1..<Suc (nat n)]"
proof -
  have "[1..<Suc (nat n)] = map Suc [0..<nat n]"
    by (simp only: map_Suc_upt One_nat_def)
  then show ?thesis
    by (simp add: pc_cols_def comp_def)
qed

lemma make_frame_Inr:
  "make_frame data ix cols = Inr out \<longleftrightarrow>
     (length data = length ix \<and> list_all (\<lambda>r. length r = length cols) data
      \<and> out = \<lparr>index = ix, columns = cols, cells = data\<rparr>)"
  by (auto simp: make_frame_def)

text \<open>
  Claim C7. Let \<open>actual_n = min (n_components, number of samples, number of genes)\<close>
  for a non-empty scaled table (samples are its columns, genes its rows). The PCA
  routine is asked for exactly \<open>actual_n\<close> components. Whenever it returns
  coordinates of the documented shape (one row per sample, \<open>actual_n\<close> columns),
  \<open>run_pca_pipeline\<close> returns them as a frame indexed by the samples with the
  columns \<open>PC1\<close> to \<open>PC{actual_n}\<close>; and every frame it returns has that index
  and those columns.
\<close>

theorem run_pca_pipeline_components:
  fixes df_scaled :: "'a dataframe"
    and pca :: "int \<Rightarrow> 'a list list \<Rightarrow> pyerr + ('a list list \<times> 'a list \<times> 'p)"
    and n_components :: int
  defines "actual_n \<equiv>
    min n_components (min (int (length (columns df_scaled))) (int (length (index df_scaled))))"
  assumes "\<not> df_empty df_scaled"
  shows "(\<forall>X_pca ratio fitted.
            pca actual_n (cells (df_T df_scaled)) = Inr (X_pca, ratio, fitted) \<and>
            length X_pca = length (columns df_scaled) \<and>
            list_all (\<lambda>r. length r = nat actual_n) X_pca
            \<longrightarrow> run_pca_pipeline pca df_scaled n_components
                  = Inr (\<lparr>index = columns df_scaled,
                          columns = map (\<lambda>i. ''PC'' @ str_of_nat i) [1..<Suc (nat actual_n)],
                          cells = X_pca\<rparr>, ratio, Some fitted)) \<and>
         (\<forall>df_pca ratio fitted.
            run_pca_pipeline pca df_scaled n_components = Inr (df_pca, ratio, fitted)
            \<longrightarrow> index df_pca = columns df_scaled \<and>
                columns df_pca = map (\<lambda>i. ''PC'' @ str_of_nat i) [1..<Suc (nat actual_n)] \<and>
                length (columns df_pca) = nat actual_n \<and>
                (\<exists>p. fitted = Some p \<and>
                     pca actual_n (cells (df_T df_scaled)) = Inr (cells df_pca, ratio, p)))"
proof (intro conjI allI impI)
  fix X_pca ratio fitted
  assume a: "pca actual_n (cells (df_T df_scaled)) = Inr (X_pca, ratio, fitted) \<and>
             length X_pca = length (columns df_scaled) \<and>
             list_all (\<lambda>r. length r = nat actual_n) X_pca"
  have "make_frame X_pca (columns df_scaled) (pc_cols actual_n)
          = Inr \<lparr>index = columns df_scaled, columns = pc_cols actual_n, cells = X_pca\<rparr>"
    using a by (simp add: make_frame_Inr pc_cols_def)
  then have "run_pca_pipeline pca df_scaled n_components
               = Inr (\<lparr>index = columns df_scaled, columns = pc_cols actual_n,
                       cells = X_pca\<rparr>, ratio, Some fitted)"
    using assms(2) a
    by (simp add: run_pca_pipeline_def Let_def actual_n_def[symmetric])
  then show "run_pca_pipeline pca df_scaled n_components
               = Inr (\<lparr>index = columns df_scaled,
                       columns = map (\<lambda>i. ''PC'' @ str_of_nat i) [1..<Suc (nat actual_n)],
                       cells = X_pca\<rparr>, ratio, Some fitted)"
    by (simp only: pc_cols_names)
next
  fix df_pca ratio fitted
  assume r: "run_pca_pipeline pca df_scaled n_components = Inr (df_pca, ratio, fitted)"
  then obtain X_pca p where
    p: "pca actual_n (cells (df_T df_scaled)) = Inr (X_pca, ratio, p)"
    and m: "make_frame X_pca (columns df_scaled) (pc_cols actual_n) = Inr df_pca"
    and f: "fitted = Some p"
    using assms(2)
    by (auto simp: run_pca_pipeline_def Let_def actual_n_def[symmetric] split: sum.splits)
  from m have d: "df_pca = \<lparr>index = columns df_scaled, columns = pc_cols actual_n, cells = X_pca\<rparr>"
    by (simp add: make_frame_Inr)
  show "index df_pca = columns df_scaled" by (simp add: d)
  have "columns df_pca = pc_cols actual_n" by (simp add: d)
  then show "columns df_pca = map (\<lambda>i. ''PC'' @ str_of_nat i) [1..<Suc (nat actual_n)]"
    by (simp only: pc_cols_names)
  show "length (columns df_pca) = nat actual_n" by (simp add: d pc_cols_def)
  show "\<exists>p. fitted = Some p \<and> pca actual_n (cells (df_T df_scaled)) = Inr (cells df_pca, ratio, p)"
    using p f by (simp add: d)
qed

text \<open>
  Witness for C7: 50 components requested from a table of 2 genes and 3 samples give
  \<open>actual_n = 2\<close>.
\<close>

theorem run_pca_pipeline_components_witness:
  "\<not> df_empty scaled_example \<and>
   run_pca_pipeline shape_only_pca scaled_example 50
     = Inr (\<lparr>index = [''s1'', ''s2'', ''s3''], columns = [''PC1'', ''PC2''],
             cells = [[0, 0], [0, 0], [0, 0]]\<rparr>, [0, 0], Some ())"
proof -
  have h: "\<not> df_empty scaled_example"
    by (simp add: scaled_example_def df_empty_def)
  have n: "min 50 (min (int (length (columns scaled_example))) (int (length (index scaled_example)))) = 2"
    by (simp add: scaled_example_def)
  have p: "shape_only_pca 2 (cells (df_T scaled_example))
             = Inr ([[0, 0], [0, 0], [0, 0]], [0, 0], ())"
    by code_simp
  have c: "map (\<lambda>i. ''PC'' @ str_of_nat i) [1..<Suc (nat 2)] = [''PC1'', ''PC2'']"
    by code_simp
  have s: "columns scaled_example = [''s1'', ''s2'', ''s3'']"
    by (simp add: scaled_example_def)
  from run_pca_pipeline_components[OF h, of shape_only_pca 50, unfolded n, THEN conjunct1,
      rule_format, of "[[0, 0], [0, 0], [0, 0]]" "[0, 0]" "()"] p
  have "run_pca_pipeline shape_only_pca scaled_example 50
     = Inr (\<lparr>index = columns scaled_example,
             columns = map (\<lambda>i. ''PC'' @ str_of_nat i) [1..<Suc (nat 2)],
             cells = [[0, 0], [0, 0], [0, 0]]\<rparr>, [0, 0], Some ())"
    by (simp add: s del: upt_Suc)
  then have "run_pca_pipeline shape_only_pca scaled_example 50
     = Inr (\<lparr>index = [''s1'', ''s2'', ''s3''], columns = [''PC1'', ''PC2''],
             cells = [[0, 0], [0, 0], [0, 0]]\<rparr>, [0, 0], Some ())"
    by (simp only: c s)
  then show ?thesis using h by simp
qed

section \<open>select\_highly\_variable\_genes\<close>

lemma fillna0_not_NaN: "fillna0 x \<noteq> NaN"
  by (simp add: fillna0_def)

lemma desc_key_le: "desc_key a \<le> desc_key b \<Longrightarrow> \<not> fgt b a"
  by (cases a; cases b) simp_all

lemma nlargest_no_NaN:
  assumes "\<forall>p \<in> set s. snd p \<noteq> NaN"
  shows "nlargest n s = take (nat n) (sort_key (\<lambda>p. desc_key (snd p)) s)"
proof -
  have "filter (\<lambda>p. snd p \<noteq> NaN) s = s" "filter (\<lambda>p. snd p = NaN) s = []"
    using assms by (simp_all add: filter_empty_conv)
  then show ?thesis by (simp add: nlargest_def)
qed

lemma labels_as_positions:
  assumes "set keys \<subseteq> set ls"
  shows "\<exists>S. keys = map ((!) ls) S \<and> set S \<subseteq> {..<length ls}"
  using assms
proof (induction keys)
  case Nil
  then show ?case by simp
next
  case (Cons k keys)
  then obtain S where S: "keys = map ((!) ls) S" "set S \<subseteq> {..<length ls}" by auto
  from Cons.prems obtain i where "i < length ls" "ls ! i = k"
    by (auto simp: in_set_conv_nth)
  then have "k # keys = map ((!) ls) (i # S) \<and> set (i # S) \<subseteq> {..<length ls}"
    using S by simp
  then show ?case by (rule exI[of _ "i # S"])
qed

lemma loc_rows_positions:
  assumes "distinct (index df)" "set S \<subseteq> {..<length (index df)}"
  shows "loc_rows df (map ((!) (index df)) S)
           = Inr \<lparr>index = map ((!) (index df)) S, columns = columns df,
                  cells = map ((!) (cells df)) S\<rparr>"
  by (simp add: loc_rows_def loc_positions_distinct[OF assms])

lemma top_dominates:
  assumes "sorted (map k srt)" "x \<in> set (take m srt)" "y \<in> set (drop m srt)"
  shows "k x \<le> k y"
proof -
  have "sorted (map k (take m srt) @ map k (drop m srt))"
    using assms(1) by (simp flip: map_append)
  then show ?thesis
    using assms(2,3) by (auto simp: sorted_append)
qed

text \<open>
  Claim C2, as amended. For a non-empty rectangular table with pairwise distinct gene
  labels, the dispersion of a gene is \<open>fillna0 (var / (mean + 1e-9))\<close> over its
  row, and \<open>select_highly_variable_genes\<close> returns the rows at a list \<open>ps\<close> of
  distinct positions whose length is \<open>min (n_top_genes, number of genes)\<close> (none
  when that is not positive), such that no row left out has a strictly larger
  dispersion than a row taken; the metrics table carries the dispersions, and its
  \<open>is_hvg\<close> flag is true exactly at the positions taken.
\<close>

theorem select_highly_variable_genes_top:
  fixes df :: "fval dataframe" and n_top_genes :: int
    and row_mean row_var :: "fval list \<Rightarrow> fval" and f_add f_div :: "fval \<Rightarrow> fval \<Rightarrow> fval"
  defines "D \<equiv> map (gene_dispersion row_mean row_var f_add f_div) (cells df)"
  assumes wf: "wf_df df" and ne: "\<not> df_empty df" and d: "distinct (index df)"
  shows "\<exists>ps m. select_highly_variable_genes row_mean row_var f_add f_div df n_top_genes
             = Inr (\<lparr>index = map ((!) (index df)) ps, columns = columns df,
                     cells = map ((!) (cells df)) ps\<rparr>, m) \<and>
           distinct ps \<and> set ps \<subseteq> {..<length (index df)} \<and>
           length ps = nat (min n_top_genes (int (length (index df)))) \<and>
           (\<forall>i \<in> set ps. \<forall>j < length (index df). j \<notin> set ps \<longrightarrow> \<not> fgt (D ! j) (D ! i)) \<and>
           metrics_index m = index df \<and> metrics_dispersion m = D \<and>
           metrics_is_hvg m = map (\<lambda>j. j \<in> set ps) [0..<length (index df)]"
proof -
  let ?ls = "index df" and ?k = "\<lambda>p::label \<times> fval. desc_key (snd p)"
  define N where "N = length ?ls"
  define s where "s = zip ?ls D"
  define srt where "srt = sort_key ?k s"
  define m where "m = nat (min n_top_genes (int N))"
  define hvg where "hvg = map fst (take m srt)"
  have lenD: "length D = N"
    using wf by (simp add: D_def N_def wf_df_def)
  have fst_s: "map fst s = ?ls" and len_s: "length s = N"
    using lenD by (simp_all add: s_def N_def)
  have s_nth: "s ! i = (?ls ! i, D ! i)" if "i < N" for i
    using that lenD by (simp add: s_def N_def)
  have noNaN: "\<forall>p \<in> set s. snd p \<noteq> NaN"
  proof
    fix p assume "p \<in> set s"
    then have "(fst p, snd p) \<in> set (zip (index df) D)" by (simp add: s_def)
    then have "snd p \<in> set D" by (rule set_zip_rightD)
    then show "snd p \<noteq> NaN" by (auto simp: D_def gene_dispersion_def fillna0_def)
  qed
  have nl: "nlargest (min n_top_genes (int (length D))) s = take m srt"
    by (simp add: nlargest_no_NaN[OF noNaN] srt_def m_def lenD)
  have set_srt: "set srt = set s" and len_srt: "length srt = N"
    by (simp_all add: srt_def len_s)
  have "distinct (map fst s)"
    using d by (simp add: fst_s)
  then have dsrt: "distinct (map fst srt)"
    by (simp add: distinct_map srt_def)
  have dh: "distinct hvg"
    unfolding hvg_def using dsrt by (simp add: distinct_take flip: take_map)
  have sub: "set hvg \<subseteq> set ?ls"
  proof -
    have "set hvg \<subseteq> fst ` set srt"
      by (auto simp: hvg_def dest: in_set_takeD)
    also have "\<dots> = set ?ls" by (simp add: set_srt flip: fst_s)
    finally show ?thesis .
  qed
  have mN: "m \<le> N" by (simp add: m_def)
  have lh: "length hvg = m" using mN by (simp add: hvg_def len_srt)
  from labels_as_positions[OF sub] obtain S where
    S: "hvg = map ((!) ?ls) S" "set S \<subseteq> {..<length ?ls}" by blast
  have dS: "distinct S" using dh by (simp add: S(1) distinct_map)
  have lS: "length S = m" using lh by (simp add: S(1))
  have inS: "?ls ! j \<in> set hvg \<longleftrightarrow> j \<in> set S" if "j < N" for j
  proof
    assume "?ls ! j \<in> set hvg"
    then obtain i where i: "i \<in> set S" "?ls ! i = ?ls ! j" by (auto simp: S(1))
    then have "i < length ?ls" using S(2) by auto
    then have "i = j" using d i(2) that by (simp add: nth_eq_iff_index_eq N_def)
    then show "j \<in> set S" using i(1) by simp
  next
    assume "j \<in> set S" then show "?ls ! j \<in> set hvg" by (simp add: S(1))
  qed
  have rows: "loc_rows df hvg
      = Inr \<lparr>index = map ((!) ?ls) S, columns = columns df, cells = map ((!) (cells df)) S\<rparr>"
    unfolding S(1) by (rule loc_rows_positions[OF d S(2)])
  have sorted: "sorted (map ?k srt)"
    by (simp add: srt_def)
  have top: "(?ls ! i, D ! i) \<in> set (take m srt)" if "i \<in> set S" for i
  proof -
    have iN: "i < N" using that S(2) by (auto simp: N_def)
    have "?ls ! i \<in> set hvg" using that by (simp add: S(1))
    then obtain p where p: "p \<in> set (take m srt)" "fst p = ?ls ! i"
      by (auto simp: hvg_def)
    then have "p \<in> set s" using set_srt by (auto dest: in_set_takeD)
    then obtain i' where i': "i' < N" "s ! i' = p"
      by (auto simp: in_set_conv_nth len_s)
    then have "?ls ! i' = ?ls ! i" using p(2) s_nth[OF i'(1)] by auto
    then have "i' = i" using d i'(1) iN by (simp add: nth_eq_iff_index_eq N_def)
    then show ?thesis using p(1) i'(2) s_nth[OF iN] by simp
  qed
  have rest: "(?ls ! j, D ! j) \<in> set (drop m srt)" if "j < N" "j \<notin> set S" for j
  proof -
    have "(?ls ! j, D ! j) \<in> set s"
      using s_nth[OF that(1)] that(1) len_s by (metis nth_mem)
    then have "(?ls ! j, D ! j) \<in> set (take m srt) \<union> set (drop m srt)"
      by (simp add: set_srt flip: set_append)
    moreover have "(?ls ! j, D ! j) \<notin> set (take m srt)"
    proof
      assume "(?ls ! j, D ! j) \<in> set (take m srt)"
      then have "?ls ! j \<in> set hvg" by (force simp: hvg_def)
      then show False using inS[OF that(1)] that(2) by simp
    qed
    ultimately show ?thesis by blast
  qed
  have dom: "\<forall>i \<in> set S. \<forall>j < length ?ls. j \<notin> set S \<longrightarrow> \<not> fgt (D ! j) (D ! i)"
  proof (intro ballI allI impI)
    fix i j assume "i \<in> set S" "j < length ?ls" "j \<notin> set S"
    then have "?k (?ls ! i, D ! i) \<le> ?k (?ls ! j, D ! j)"
      using top_dominates[OF sorted top rest] by (simp add: N_def)
    then show "\<not> fgt (D ! j) (D ! i)" by (simp add: desc_key_le)
  qed
  have flags: "map (\<lambda>g. g \<in> set hvg) ?ls = map (\<lambda>j. j \<in> set S) [0..<length ?ls]"
    by (rule nth_equalityI) (simp_all add: inS N_def)
  define M where "M = \<lparr>metrics_index = ?ls, metrics_mean = map row_mean (cells df),
      metrics_variance = map row_var (cells df), metrics_dispersion = D,
      metrics_is_hvg = map (\<lambda>g. g \<in> set hvg) ?ls\<rparr>"
  have res: "select_highly_variable_genes row_mean row_var f_add f_div df n_top_genes
      = Inr (\<lparr>index = map ((!) ?ls) S, columns = columns df, cells = map ((!) (cells df)) S\<rparr>, M)"
    using ne nl rows
    by (simp add: select_highly_variable_genes_def Let_def D_def[symmetric] s_def[symmetric]
        hvg_def[symmetric] M_def)
  have "metrics_index M = ?ls \<and> metrics_dispersion M = D \<and>
        metrics_is_hvg M = map (\<lambda>j. j \<in> set S) [0..<length ?ls]"
    by (simp add: M_def flags)
  moreover have "length S = nat (min n_top_genes (int (length ?ls)))"
    by (simp add: lS m_def N_def)
  ultimately show ?thesis
    using res dS S(2) dom by blast
qed

text \<open>
  Witness for C2: of three genes with dispersions \<open>0 < 2/(2+1e-9) < 8/(2+1e-9)\<close>
  the top two are \<open>g3\<close> and \<open>g2\<close>.
\<close>

theorem select_highly_variable_genes_top_witness:
  "wf_df hvg_example \<and> \<not> df_empty hvg_example \<and> distinct (index hvg_example) \<and>
   (\<exists>ps m. select_highly_variable_genes ref_mean ref_var fadd fdiv hvg_example 2
        = Inr (\<lparr>index = map ((!) (index hvg_example)) ps, columns = columns hvg_example,
                cells = map ((!) (cells hvg_example)) ps\<rparr>, m) \<and>
      length ps = 2 \<and> map ((!) (index hvg_example)) ps = [''g3'', ''g2''] \<and>
      metrics_is_hvg m = [False, True, True])"
proof -
  have h: "wf_df hvg_example" "\<not> df_empty hvg_example" "distinct (index hvg_example)"
    by code_simp+
  have e: "select_highly_variable_genes ref_mean ref_var fadd fdiv hvg_example 2
      = Inr (\<lparr>index = [''g3'', ''g2''], columns = [''s1'', ''s2''],
              cells = [[Fin 0, Fin 4], [Fin 1, Fin 3]]\<rparr>,
             \<lparr>metrics_index = [''g1'', ''g2'', ''g3''], metrics_mean = [Fin 2, Fin 2, Fin 2],
              metrics_variance = [Fin 0, Fin 2, Fin 8],
              metrics_dispersion = [Fin 0, Fin (2000000000 / 2000000001), Fin (8000000000 / 2000000001)],
              metrics_is_hvg = [False, True, True]\<rparr>)"
    by code_simp
  from select_highly_variable_genes_top[OF h, of ref_mean ref_var fadd fdiv 2]
  obtain ps m where r:
    "select_highly_variable_genes ref_mean ref_var fadd fdiv hvg_example 2
       = Inr (\<lparr>index = map ((!) (index hvg_example)) ps, columns = columns hvg_example,
               cells = map ((!) (cells hvg_example)) ps\<rparr>, m)"
    "length ps = nat (min 2 (int (length (index hvg_example))))"
    by blast
  have l: "length ps = 2" using r(2) by (simp add: hvg_example_def)
  have x: "map ((!) (index hvg_example)) ps = [''g3'', ''g2'']" "metrics_is_hvg m = [False, True, True]"
    using r(1) unfolding e by auto
  show ?thesis
    by (intro conjI exI[of _ ps] exI[of _ m]) (fact h r(1) l x)+
qed

text \<open>
  C2 as stated fails when a gene label repeats: the top gene is looked up by label
  (\<^verbatim>\<open>df.loc[hvg_indices]\<close>), so with \<open>n_top_genes = 1\<close> both rows labelled
  \<open>g1\<close> are returned, not \<open>min (1, 2) = 1\<close> row. With \<open>n_top_genes = -1\<close> no
  row is returned, while \<open>min (-1, 3) = -1\<close>.
\<close>

theorem select_highly_variable_genes_top_counterexample:
  "map_sum id (index \<circ> fst)
     (select_highly_variable_genes ref_mean ref_var fadd fdiv hvg_repeated 1) = Inr [''g1'', ''g1''] \<and>
   min 1 (int (length (index hvg_repeated))) = 1 \<and>
   map_sum id (index \<circ> fst)
     (select_highly_variable_genes ref_mean ref_var fadd fdiv hvg_example (- 1)) = Inr [] \<and>
   min (- 1) (int (length (index hvg_example))) = - 1"
  by code_simp

section \<open>clean\_and\_validate\_df and merge\_expression\_tables\<close>

lemma mask_select_map: "mask_select xs (map P xs) = filter P xs"
  by (induction xs) (simp_all add: mask_select_def)

lemma index_drop_label: "index (drop_label df k) = filter (\<lambda>l. l \<noteq> k) (index df)"
  by (simp add: drop_label_def loc_rows_mask_def mask_select_map)

lemma index_astype_float: "astype_float py_float df = Inr d \<Longrightarrow> index d = index df"
  by (auto simp: astype_float_def map_cells_def split: if_splits)

lemma index_apply_to_numeric: "index (apply_to_numeric pd_numeric df) = index df"
  by (simp add: apply_to_numeric_def from_columns_def)

lemma index_groupby: "index (groupby_index_sum fsum df) = sort (remdups (index df))"
  by (simp add: groupby_index_sum_def Let_def)

lemma index_map_cells [simp]: "index (map_cells f df) = index df"
  and columns_map_cells [simp]: "columns (map_cells f df) = columns df"
  and cells_map_cells [simp]: "cells (map_cells f df) = map (map f) (cells df)"
  by (simp_all add: map_cells_def)

lemma not_missing_fillna: "\<not> is_missing (fillna_num n)"
  by (simp add: fillna_num_def)

lemma fillna_clears: "\<not> has_missing (map_cells fillna_num df)"
  by (simp add: has_missing_def list_ex_iff not_missing_fillna)

text \<open>
  What the cleaning guarantees on every raw table: it returns a table whose row
  labels are pairwise distinct, without a missing value, and without the artifact
  label; its row labels are those of the input, the artifact label apart.
\<close>

lemma clean_and_validate_df_invariants:
  "\<exists>out. clean_and_validate_df py_float pd_numeric fsum df index_name = Inr out \<and>
     distinct (index out) \<and> \<not> has_missing out \<and>
     set (index out) = set (index df) - {index_name}"
proof -
  define d1 where "d1 = (if index_name \<in> set (index df) then drop_label df index_name else df)"
  have i1: "set (index d1) = set (index df) - {index_name}"
    by (auto simp: d1_def index_drop_label)
  obtain d2 where c: "(case astype_float py_float d1 of Inr d \<Rightarrow> Inr d
      | Inl e \<Rightarrow> if e = ValueError then Inr (apply_to_numeric pd_numeric d1) else Inl e) = Inr d2"
    and i2: "index d2 = index d1"
    by (cases "astype_float py_float d1")
       (auto simp: astype_float_def index_apply_to_numeric map_cells_def split: if_splits)
  define d3 where "d3 = (if \<not> distinct (index d2) then groupby_index_sum fsum d2 else d2)"
  define d4 where "d4 = (if has_missing d3 then map_cells fillna_num d3 else d3)"
  have i3: "distinct (index d3)" "set (index d3) = set (index d2)"
    by (simp_all add: d3_def index_groupby)
  have i4: "index d4 = index d3" "\<not> has_missing d4"
    by (simp_all add: d4_def fillna_clears)
  have "clean_and_validate_df py_float pd_numeric fsum df index_name = Inr d4"
    by (simp add: clean_and_validate_df_def Let_def d1_def[symmetric] c d3_def[symmetric]
        d4_def[symmetric])
  then show ?thesis
    using i1 i2 i3 i4 by auto
qed

text \<open>Every merged table went through the cleaning, whatever the concatenation did.\<close>

lemma merge_expression_tables_invariants:
  assumes "merge_expression_tables concat_columns py_float pd_numeric fsum dfs = Inr out"
  shows "distinct (index out) \<and> \<not> has_missing out \<and> ''GENE'' \<notin> set (index out)"
proof -
  from assms obtain combined where
    "clean_and_validate_df py_float pd_numeric fsum combined ''GENE'' = Inr out"
    by (auto simp: merge_expression_tables_def split: if_splits sum.splits)
  then show ?thesis
    using clean_and_validate_df_invariants[of py_float pd_numeric fsum combined "''GENE''"]
    by auto
qed

text \<open>
  Claim C10 at the raw table \<open>raw_example\<close>. The strict conversion to float raises
  on the entry \<open>x\<close>, so the table is converted column by column: sample \<open>s1\<close>
  (the strings \<open>1\<close> and \<open>2\<close>) comes out as an integer column, and only sample
  \<open>s2\<close> as a float column with the entry that is not a number filled with 0. The
  result has a unique index and no missing value, but it is not a table of floats.
\<close>

theorem clean_and_validate_df_integer_column:
  "clean_and_validate_df ref_py_float ref_pd_numeric nansum raw_example ''GENE''
     = Inr \<lparr>index = [''g1'', ''g2''], columns = [''s1'', ''s2''],
            cells = [[IntV 1, FloatV (Fin 0)], [IntV 2, FloatV (Fin 3)]]\<rparr>"
  by code_simp

lemma merge_expression_tables_empty:
  "merge_expression_tables concat_columns py_float pd_numeric fsum [] = Inl ValueError"
  by (simp add: merge_expression_tables_def)

section \<open>run\_clustering\_benchmark: alignment\<close>

lemma set_unique [simp]: "set (unique xs) = set xs"
  and distinct_unique [simp]: "distinct (unique xs)"
  by (simp_all add: unique_def)

lemma set_index_intersection: "set (index_intersection a b) = set a \<inter> set b"
  by (auto simp: index_intersection_def)

lemma distinct_index_intersection: "distinct (index_intersection a b)"
  by (simp add: index_intersection_def)

lemma in_positions_of: "p \<in> set (positions_of ls k) \<longleftrightarrow> p < length ls \<and> ls ! p = k"
  by (auto simp: positions_of_def)

lemma loc_positions_total:
  assumes "set keys \<subseteq> set ls"
  shows "\<exists>ps. loc_positions ls keys = Inr ps \<and> set ps \<subseteq> {..<length ls}
           \<and> set (map ((!) ls) ps) = set keys"
proof -
  let ?ps = "concat (map (positions_of ls) keys)"
  have "\<not> list_ex (\<lambda>k. k \<notin> set ls) keys"
    using assms by (auto simp: list_ex_iff)
  then have a: "loc_positions ls keys = Inr ?ps"
    by (simp add: loc_positions_def)
  have b: "set ?ps \<subseteq> {..<length ls}"
    by (auto simp: in_positions_of)
  have c: "set (map ((!) ls) ?ps) = set keys"
  proof
    show "set (map ((!) ls) ?ps) \<subseteq> set keys"
      by (auto simp: in_positions_of)
  next
    show "set keys \<subseteq> set (map ((!) ls) ?ps)"
    proof
      fix k assume k: "k \<in> set keys"
      then have "k \<in> set ls" using assms by auto
      then obtain p where p: "p < length ls" "ls ! p = k"
        by (auto simp: in_set_conv_nth)
      then have "p \<in> set ?ps" using k by (auto simp: in_positions_of)
      then show "k \<in> set (map ((!) ls) ?ps)" using p(2) by force
    qed
  qed
  show ?thesis using a b c by blast
qed

lemma loc_rows_total:
  assumes "set keys \<subseteq> set (index df)"
  shows "\<exists>ps. set ps \<subseteq> {..<length (index df)} \<and>
           loc_rows df keys = Inr \<lparr>index = map ((!) (index df)) ps, columns = columns df,
                                   cells = map ((!) (cells df)) ps\<rparr> \<and>
           set (map ((!) (index df)) ps) = set keys"
proof -
  from loc_positions_total[OF assms] obtain ps where
    ps: "loc_positions (index df) keys = Inr ps" "set ps \<subseteq> {..<length (index df)}"
      "set (map ((!) (index df)) ps) = set keys"
    by blast
  have "loc_rows df keys = Inr \<lparr>index = map ((!) (index df)) ps, columns = columns df,
                                 cells = map ((!) (cells df)) ps\<rparr>"
    by (simp add: loc_rows_def ps(1))
  then show ?thesis using ps(2,3) by blast
qed

lemma distinct_loc_positions:
  assumes "distinct keys"
  shows "distinct (concat (map (positions_of ls) keys))"
  using assms
proof (induction keys)
  case Nil
  show ?case by simp
next
  case (Cons k keys)
  have "distinct (positions_of ls k)"
    by (simp add: positions_of_def)
  moreover have "set (positions_of ls k) \<inter> set (concat (map (positions_of ls) keys)) = {}"
    using Cons.prems by (auto simp: in_positions_of)
  ultimately show ?case using Cons by simp
qed

lemma set_loc_positions:
  "set (concat (map (positions_of ls) keys)) = {p. p < length ls \<and> ls ! p \<in> set keys}"
  by (auto simp: in_positions_of)

lemma labels_loc_positions:
  "map ((!) ls) (concat (map (positions_of ls) keys))
     = concat (map (\<lambda>k. replicate (length (positions_of ls k)) k) keys)"
proof (induction keys)
  case Nil
  show ?case by simp
next
  case (Cons k keys)
  have "map ((!) ls) (positions_of ls k) = map (\<lambda>p. k) (positions_of ls k)"
    by (rule map_cong) (simp_all add: in_positions_of)
  then have "map ((!) ls) (positions_of ls k) = replicate (length (positions_of ls k)) k"
    by (simp add: map_replicate_const)
  then show ?case using Cons by simp
qed

lemma labels_loc_positions_distinct:
  assumes "distinct ls" "set keys \<subseteq> set ls"
  shows "map ((!) ls) (concat (map (positions_of ls) keys)) = keys"
proof -
  have one: "replicate (length (positions_of ls k)) k = [k]" if "k \<in> set keys" for k
  proof -
    have "k \<in> set ls" using that assms(2) by auto
    then obtain j where "j < length ls" "ls ! j = k"
      by (auto simp: in_set_conv_nth)
    then show ?thesis using positions_of_distinct[OF assms(1), of j] by simp
  qed
  have "concat (map (\<lambda>k. replicate (length (positions_of ls k)) k) keys)
          = concat (map (\<lambda>k. [k]) keys)"
    by (rule arg_cong[where f = concat], rule map_cong) (simp_all add: one)
  also have "\<dots> = keys" by (induction keys) simp_all
  finally show ?thesis by (simp add: labels_loc_positions)
qed

lemma loc_rows_common:
  assumes "set keys \<subseteq> set (index df)"
  shows "loc_rows df keys
           = Inr \<lparr>index = map ((!) (index df)) (concat (map (positions_of (index df)) keys)),
                   columns = columns df,
                   cells = map ((!) (cells df)) (concat (map (positions_of (index df)) keys))\<rparr>"
proof -
  have "\<not> list_ex (\<lambda>k. k \<notin> set (index df)) keys"
    using assms by (auto simp: list_ex_iff)
  then show ?thesis by (simp add: loc_rows_def loc_positions_def)
qed

text \<open>
  Claim C3, as amended. Let \<open>common\<close> be the intersection of the two indexes. The
  benchmark runs on \<open>pa = pca_df.loc[common]\<close> and \<open>ma = cell_metadata.loc[common]\<close>:
  what it prints after the alignment and the leaderboard it returns are those of the
  benchmark on \<open>pa\<close> and \<open>ma\<close>. The rows of \<open>pa\<close> are the rows of \<open>pca_df\<close> at the
  positions \<open>ps\<close>, which are pairwise different (no sample is added) and are exactly
  the positions of \<open>pca_df\<close> whose label occurs in the metadata index (a sample present
  in the coordinates only is dropped, no other is); likewise \<open>qs\<close> and \<open>ma\<close> for the
  metadata. Both aligned tables list the labels of \<open>common\<close> in the same order, each
  label as often as its table carries it; when the labels of each table are pairwise
  distinct both carry exactly the index \<open>common\<close>, so row \<open>i\<close> of \<open>pa\<close> and row \<open>i\<close>
  of \<open>ma\<close> belong to the same sample. The warning is printed exactly when the
  intersection has fewer labels than \<open>pca_df\<close> has rows; a sample present only in
  the metadata is dropped without a warning.
\<close>

theorem run_clustering_benchmark_alignment:
  fixes pca_df :: "'a dataframe" and cell_metadata :: "'m dataframe"
  defines "common \<equiv> index_intersection (index pca_df) (index cell_metadata)"
  defines "ps \<equiv> concat (map (positions_of (index pca_df)) common)"
    and "qs \<equiv> concat (map (positions_of (index cell_metadata)) common)"
  defines "pa \<equiv> \<lparr>index = map ((!) (index pca_df)) ps, columns = columns pca_df,
                   cells = map ((!) (cells pca_df)) ps\<rparr>"
    and "ma \<equiv> \<lparr>index = map ((!) (index cell_metadata)) qs, columns = columns cell_metadata,
                 cells = map ((!) (cells cell_metadata)) qs\<rparr>"
  shows "loc_rows pca_df common = Inr pa \<and>
         loc_rows cell_metadata common = Inr ma \<and>
         distinct ps \<and>
         set ps = {p. p < length (index pca_df) \<and> index pca_df ! p \<in> set (index cell_metadata)} \<and>
         distinct qs \<and>
         set qs = {q. q < length (index cell_metadata) \<and>
                      index cell_metadata ! q \<in> set (index pca_df)} \<and>
         index pa = concat (map (\<lambda>l. replicate (length (positions_of (index pca_df) l)) l) common) \<and>
         index ma = concat (map (\<lambda>l. replicate (length (positions_of (index cell_metadata) l)) l)
                              common) \<and>
         (distinct (index pca_df) \<and> distinct (index cell_metadata) \<longrightarrow>
            index pa = common \<and> index ma = common) \<and>
         run_clustering_benchmark lib pca_df cell_metadata n_clusters_range target_cols
           = Inr (Starting #
                  (if length common < length (index pca_df)
                   then [WarnDropping (int (length (index pca_df)) - int (length common))]
                   else [])
                  @ fst (benchmark_aligned lib pa ma n_clusters_range target_cols),
                  snd (benchmark_aligned lib pa ma n_clusters_range target_cols))"
proof -
  have s: "set common = set (index pca_df) \<inter> set (index cell_metadata)"
    by (simp add: common_def set_index_intersection)
  have dc: "distinct common"
    by (simp add: common_def distinct_index_intersection)
  have la: "loc_rows pca_df common = Inr pa"
    using loc_rows_common[of common pca_df] s by (simp add: pa_def ps_def)
  have lm: "loc_rows cell_metadata common = Inr ma"
    using loc_rows_common[of common cell_metadata] s by (simp add: ma_def qs_def)
  have dp: "distinct ps"
    unfolding ps_def by (rule distinct_loc_positions[OF dc])
  have dq: "distinct qs"
    unfolding qs_def by (rule distinct_loc_positions[OF dc])
  have sp: "set ps = {p. p < length (index pca_df) \<and>
                         index pca_df ! p \<in> set (index cell_metadata)}"
    unfolding ps_def set_loc_positions s by auto
  have sq: "set qs = {q. q < length (index cell_metadata) \<and>
                         index cell_metadata ! q \<in> set (index pca_df)}"
    unfolding qs_def set_loc_positions s by auto
  have ia: "index pa
              = concat (map (\<lambda>l. replicate (length (positions_of (index pca_df) l)) l) common)"
    by (simp add: pa_def ps_def labels_loc_positions)
  have im: "index ma
              = concat (map (\<lambda>l. replicate (length (positions_of (index cell_metadata) l)) l)
                          common)"
    by (simp add: ma_def qs_def labels_loc_positions)
  have di: "distinct (index pca_df) \<and> distinct (index cell_metadata) \<longrightarrow>
            index pa = common \<and> index ma = common"
  proof
    assume d: "distinct (index pca_df) \<and> distinct (index cell_metadata)"
    have "index pa = common"
      using labels_loc_positions_distinct[of "index pca_df" common] d s
      by (simp add: pa_def ps_def)
    moreover have "index ma = common"
      using labels_loc_positions_distinct[of "index cell_metadata" common] d s
      by (simp add: ma_def qs_def)
    ultimately show "index pa = common \<and> index ma = common" ..
  qed
  have run: "run_clustering_benchmark lib pca_df cell_metadata n_clusters_range target_cols
             = Inr (Starting #
                    (if length common < length (index pca_df)
                     then [WarnDropping (int (length (index pca_df)) - int (length common))]
                     else [])
                    @ fst (benchmark_aligned lib pa ma n_clusters_range target_cols),
                    snd (benchmark_aligned lib pa ma n_clusters_range target_cols))"
    by (simp add: run_clustering_benchmark_def Let_def common_def[symmetric] la lm split_def)
  show ?thesis
    by (intro conjI) (fact la lm dp sp dq sq ia im di run)+
qed

text \<open>
  Witness for C3: the coordinates of \<open>c1\<close> and \<open>c2\<close> against metadata for
  \<open>c2\<close>, \<open>c1\<close> and \<open>c3\<close>. The metadata rows are reordered to the order of the
  coordinates and \<open>c3\<close> is dropped.
\<close>

theorem run_clustering_benchmark_alignment_witness:
  "distinct (index pca_example) \<and> distinct (index meta_example) \<and>
   loc_rows pca_example [''c1'', ''c2''] = Inr pca_example \<and>
   loc_rows meta_example [''c1'', ''c2'']
     = Inr \<lparr>index = [''c1'', ''c2''], columns = [''Stage''], cells = [[''early''], [''late'']]\<rparr> \<and>
   run_clustering_benchmark toy_sklearn pca_example meta_example [2] [''Stage'']
     = Inr (Starting #
            fst (benchmark_aligned toy_sklearn pca_example
                   \<lparr>index = [''c1'', ''c2''], columns = [''Stage''],
                    cells = [[''early''], [''late'']]\<rparr> [2] [''Stage'']),
            snd (benchmark_aligned toy_sklearn pca_example
                   \<lparr>index = [''c1'', ''c2''], columns = [''Stage''],
                    cells = [[''early''], [''late'']]\<rparr> [2] [''Stage'']))"
proof -
  have d: "distinct (index pca_example) \<and> distinct (index meta_example)"
    by (simp add: pca_example_def meta_example_def)
  have c: "index_intersection (index pca_example) (index meta_example) = [''c1'', ''c2'']"
    by code_simp
  have p: "concat (map (positions_of (index pca_example)) [''c1'', ''c2'']) = [0, 1]"
    by code_simp
  have q: "concat (map (positions_of (index meta_example)) [''c1'', ''c2'']) = [1, 0]"
    by code_simp
  have a: "\<lparr>index = map ((!) (index pca_example)) [0, 1], columns = columns pca_example,
            cells = map ((!) (cells pca_example)) [0, 1]\<rparr> = pca_example"
    by (simp add: pca_example_def)
  have m: "\<lparr>index = map ((!) (index meta_example)) [1, 0], columns = columns meta_example,
            cells = map ((!) (cells meta_example)) [1, 0]\<rparr>
           = \<lparr>index = [''c1'', ''c2''], columns = [''Stage''], cells = [[''early''], [''late'']]\<rparr>"
    by (simp add: meta_example_def)
  have l: "\<not> length [''c1'', ''c2''] < length (index pca_example)"
    by (simp add: pca_example_def)
  note t = run_clustering_benchmark_alignment[where lib = toy_sklearn and pca_df = pca_example
        and cell_metadata = meta_example and n_clusters_range = "[2]"
        and target_cols = "[''Stage'']", unfolded c p q a m]
  note la = t[THEN conjunct1]
    and lm = t[THEN conjunct2, THEN conjunct1]
    and di = t[THEN conjunct2, THEN conjunct2, THEN conjunct2, THEN conjunct2, THEN conjunct2,
        THEN conjunct2, THEN conjunct2, THEN conjunct2, THEN conjunct1, rule_format, OF d]
    and run = t[THEN conjunct2, THEN conjunct2, THEN conjunct2, THEN conjunct2, THEN conjunct2,
        THEN conjunct2, THEN conjunct2, THEN conjunct2, THEN conjunct2]
  have r: "run_clustering_benchmark toy_sklearn pca_example meta_example [2] [''Stage'']
     = Inr (Starting #
            fst (benchmark_aligned toy_sklearn pca_example
                   \<lparr>index = [''c1'', ''c2''], columns = [''Stage''],
                    cells = [[''early''], [''late'']]\<rparr> [2] [''Stage'']),
            snd (benchmark_aligned toy_sklearn pca_example
                   \<lparr>index = [''c1'', ''c2''], columns = [''Stage''],
                    cells = [[''early''], [''late'']]\<rparr> [2] [''Stage'']))"
    using run l by simp
  show ?thesis
    using d la lm di r by simp
qed

text \<open>
  C3 as stated fails on these two tables: sample \<open>c3\<close> is present in the metadata
  only and is dropped from the aligned metadata, yet no warning is printed. (The run
  is over an empty range of \<open>k\<close>, so that no clustering routine takes part.)
\<close>

theorem run_clustering_benchmark_alignment_counterexample:
  "run_clustering_benchmark toy_sklearn pca_example meta_example [] [''Stage'']
     = Inr ([Starting, BenchmarkingAgainst [''Stage''], Done], []) \<and>
   ''c3'' \<in> set (index meta_example) \<and> ''c3'' \<notin> set (index pca_example) \<and>
   map_sum id index
     (loc_rows meta_example (index_intersection (index pca_example) (index meta_example)))
     = Inr [''c1'', ''c2'']"
  by code_simp

section \<open>run\_clustering\_benchmark: the leaderboard\<close>

lemma snd_run_methods:
  "snd (run_methods lib pa ma vt k ms (msgs, rows))
     = rows @ concat (map (\<lambda>m. case try_method lib pa ma vt k m of
                                   Inl e \<Rightarrow> [] | Inr row \<Rightarrow> [row]) ms)"
  by (induction ms arbitrary: msgs rows) (simp_all split: sum.splits)

lemma snd_run_ks:
  "snd (run_ks lib pa ma vt ks (msgs, rows)) = rows @ successful_rows lib pa ma vt ks"
proof (induction ks arbitrary: msgs rows)
  case Nil
  then show ?case by (simp add: successful_rows_def)
next
  case (Cons k ks)
  obtain msgs' rows' where
    r: "run_methods lib pa ma vt k method_names (msgs @ [ProcessingK k], rows) = (msgs', rows')"
    by (cases "run_methods lib pa ma vt k method_names (msgs @ [ProcessingK k], rows)")
  have "rows' = rows @ concat (map (\<lambda>m. case try_method lib pa ma vt k m of
                                   Inl e \<Rightarrow> [] | Inr row \<Rightarrow> [row]) method_names)"
    using snd_run_methods[of lib pa ma vt k method_names "msgs @ [ProcessingK k]" rows] r by simp
  then show ?case
    using Cons.IH[of msgs' rows'] by (simp add: r successful_rows_def)
qed










lemma snd_benchmark_aligned:
  "snd (benchmark_aligned lib pa ma ks ts)
     = (let vt = filter (\<lambda>col. col \<in> set (columns ma)) ts
        in if vt = [] then []
           else let rows = successful_rows lib pa ma vt ks
                in if rows \<noteq> [] \<and> has_column rows (''AMI_'' @ hd vt)
                   then sort_values_descending (''AMI_'' @ hd vt) rows else rows)"
proof -
  let ?vt = "filter (\<lambda>col. col \<in> set (columns ma)) ts"
  obtain msgs rows where
    r: "run_ks lib pa ma ?vt ks ([BenchmarkingAgainst ?vt], []) = (msgs, rows)"
    by (cases "run_ks lib pa ma ?vt ks ([BenchmarkingAgainst ?vt], [])")
  have "rows = successful_rows lib pa ma ?vt ks"
    using snd_run_ks[of lib pa ma ?vt ks "[BenchmarkingAgainst ?vt]" "[]"] r by simp
  then show ?thesis
    by (simp add: benchmark_aligned_def Let_def r)
qed








section \<open>Empty input\<close>

lemma run_clustering_benchmark_returns:
  fixes pca_df :: "'a dataframe" and cell_metadata :: "'m dataframe"
  shows "\<exists>msgs board.
           run_clustering_benchmark lib pca_df cell_metadata n_clusters_range target_cols
             = Inr (msgs, board) \<and>
           (filter (\<lambda>col. col \<in> set (columns cell_metadata)) target_cols = [] \<longrightarrow> board = [])"
proof -
  define common where "common = index_intersection (index pca_df) (index cell_metadata)"
  have s: "set common = set (index pca_df) \<inter> set (index cell_metadata)"
    by (simp add: common_def set_index_intersection)
  from loc_rows_total[of common pca_df] s obtain pa where
    pa: "loc_rows pca_df common = Inr pa" by auto
  from loc_rows_total[of common cell_metadata] s obtain ma where
    ma: "loc_rows cell_metadata common = Inr ma" and cm: "columns ma = columns cell_metadata"
    by auto
  define board where "board = snd (benchmark_aligned lib pa ma n_clusters_range target_cols)"
  obtain msgs where run:
    "run_clustering_benchmark lib pca_df cell_metadata n_clusters_range target_cols = Inr (msgs, board)"
    by (simp add: run_clustering_benchmark_def Let_def common_def[symmetric] pa ma split_def board_def)
  have "filter (\<lambda>col. col \<in> set (columns cell_metadata)) target_cols = [] \<longrightarrow> board = []"
    by (simp add: board_def snd_benchmark_aligned Let_def cm)
  then show ?thesis using run by blast
qed

text \<open>
  Claim C4, as amended. On an empty table \<open>filter_tpm_matrix\<close>,
  \<open>select_highly_variable_genes\<close>, \<open>scale_data\<close>, \<open>run_pca_pipeline\<close> and
  \<open>prepare_sample_metadata\<close> return empty results; \<open>run_clustering_benchmark\<close>
  always returns, with an empty leaderboard when no target column is valid. But
  \<open>merge_expression_tables\<close> raises \<open>ValueError\<close> on an empty list,
  \<open>load_gse74596_data\<close> raises \<open>ValueError\<close> when no count data was loaded, and
  \<open>load_gse42268_data\<close> raises \<open>ValueError\<close> when no file is found.
\<close>

theorem empty_input_results:
  fixes df :: "fval dataframe"
  shows
  "(df_empty df \<longrightarrow>
      filter_tpm_matrix fsum df min_tpm min_genes_per_sample min_samples_per_gene
        = Inr (empty_df, empty_df)) \<and>
   (df_empty df \<longrightarrow>
      select_highly_variable_genes row_mean row_var f_add f_div df n_top_genes
        = Inr (empty_df, empty_metrics)) \<and>
   (df_empty df_raw \<longrightarrow> scale_data fit_transform df_raw = Inr empty_df) \<and>
   (df_empty df_scaled \<longrightarrow> run_pca_pipeline pca df_scaled n_components = Inr (empty_df, [], None)) \<and>
   (df_empty sra_run_table_df \<longrightarrow>
      prepare_sample_metadata sra_run_table_df qc_metrics_df pca_coordinates build = Inr empty_df) \<and>
   (\<exists>msgs board.
      run_clustering_benchmark lib pca_df cell_metadata n_clusters_range target_cols
        = Inr (msgs, board) \<and>
      (filter (\<lambda>col. col \<in> set (columns cell_metadata)) target_cols = [] \<longrightarrow> board = [])) \<and>
   merge_expression_tables concat_columns py_float pd_numeric gsum [] = Inl ValueError \<and>
   (df_empty raw_counts \<longrightarrow> load_gse74596_data meta_df raw_counts = Inl ValueError) \<and>
   load_gse42268_data [] load_files = Inl ValueError"
proof (intro conjI impI)
  show "\<exists>msgs board.
      run_clustering_benchmark lib pca_df cell_metadata n_clusters_range target_cols
        = Inr (msgs, board) \<and>
      (filter (\<lambda>col. col \<in> set (columns cell_metadata)) target_cols = [] \<longrightarrow> board = [])"
    by (rule run_clustering_benchmark_returns)
qed (simp_all add: filter_tpm_matrix_def select_highly_variable_genes_def scale_data_def
      run_pca_pipeline_def prepare_sample_metadata_def merge_expression_tables_def
      load_gse74596_data_def load_gse42268_data_def)

text \<open>
  Witness for C4 at the empty table and the default thresholds.
\<close>

theorem empty_input_results_witness:
  "df_empty (empty_df :: fval dataframe) \<and>
   filter_tpm_matrix nansum empty_df (Fin 1) 500 3 = Inr (empty_df, empty_df) \<and>
   select_highly_variable_genes ref_mean ref_var fadd fdiv empty_df 2000
     = Inr (empty_df, empty_metrics) \<and>
   scale_data standard_scaler empty_df = Inr empty_df \<and>
   run_pca_pipeline shape_only_pca empty_df 50 = Inr (empty_df, [], None) \<and>
   (\<exists>msgs. run_clustering_benchmark toy_sklearn pca_example meta_example [2] [''Batch'']
      = Inr (msgs, [])) \<and>
   merge_expression_tables concat_equal_index ref_py_float ref_pd_numeric nansum [] = Inl ValueError \<and>
   load_gse74596_data meta_example (empty_df :: fval dataframe) = Inl ValueError"
proof -
  have v: "filter (\<lambda>col. col \<in> set (columns meta_example)) [''Batch''] = []"
    by (simp add: meta_example_def)
  show ?thesis
    using empty_input_results[where df = empty_df and df_raw = "empty_df :: fval dataframe"
        and df_scaled = "empty_df :: real dataframe"
        and sra_run_table_df = "empty_df :: string dataframe"
        and raw_counts = "empty_df :: fval dataframe" and meta_df = meta_example
        and fsum = nansum and min_tpm = "Fin 1" and min_genes_per_sample = 500
        and min_samples_per_gene = 3 and row_mean = ref_mean and row_var = ref_var
        and f_add = fadd and f_div = fdiv and n_top_genes = 2000
        and fit_transform = standard_scaler and pca = shape_only_pca and n_components = 50
        and lib = toy_sklearn and pca_df = pca_example and cell_metadata = meta_example
        and n_clusters_range = "[2]" and target_cols = "[''Batch'']"
        and concat_columns = concat_equal_index and py_float = ref_py_float
        and pd_numeric = ref_pd_numeric and gsum = nansum
        and qc_metrics_df = "()" and pca_coordinates = "()"
        and build = "\<lambda>s q p. Inr (empty_df :: string dataframe)"
        and load_files = "\<lambda>fs :: string list. Inr ()"]
      v
    by (simp add: df_empty_def empty_df_def)
qed

text \<open>
  C4 as stated fails: two of the operations it names raise on empty input.
\<close>

theorem empty_input_results_counterexample:
  "merge_expression_tables concat_equal_index ref_py_float ref_pd_numeric nansum [] = Inl ValueError \<and>
   load_gse74596_data meta_example (empty_df :: fval dataframe) = Inl ValueError"
  by code_simp

end
